theory Spec2Isabelle
  imports Complex_Main "HOL-Library.Log_Nat"
begin

section \<open>The Amadeus hotel server: request orchestration and fallback data\<close>

text \<open>
  A shallow embedding of \<^verbatim>\<open>dist/index.js\<close>: the token cache (\<^verbatim>\<open>getAccessToken\<close>),
  the request gateway (\<^verbatim>\<open>makeAmadeusRequest\<close>), the hotel listing and the discovery of
  hotel identifiers (\<^verbatim>\<open>hotelList\<close>, \<^verbatim>\<open>hotelSearchImplementation\<close>,
  \<^verbatim>\<open>makeOffersRequest\<close>), the three caller-facing operations (\<^verbatim>\<open>hotelSearch\<close>,
  \<^verbatim>\<open>hotelOffer\<close>, \<^verbatim>\<open>hotelBooking\<close>) and the generators of fallback data
  (\<^verbatim>\<open>getMockHotelOffers\<close>, \<^verbatim>\<open>getMockHotelOfferDetails\<close>,
  \<^verbatim>\<open>getMockBookingConfirmation\<close>).

  Conventions of the model.
  \<^item> An \<^verbatim>\<open>async\<close> function is a function from the world before the call to its outcome
    and the world after it; a rejected promise or a \<^verbatim>\<open>throw\<close> is \<open>Inl\<close> of an error, a
    returned value is \<open>Inr\<close>.
  \<^item> The world holds the two module variables \<^verbatim>\<open>accessToken\<close> and \<^verbatim>\<open>tokenExpiry\<close>, the
    clock read by \<^verbatim>\<open>Date.now()\<close>, the numbers \<^verbatim>\<open>Math.random()\<close> is going to draw, the
    answers the upstream service is going to give at each endpoint (in the order of the
    calls; a call that finds no answer left is not answered, \<^verbatim>\<open>fetch\<close> rejects), and the
    log of the requests sent so far.
  \<^item> Upstream bodies are typed by the interface of the service: a token grant carries a
    string \<^verbatim>\<open>access_token\<close> and a whole number \<^verbatim>\<open>expires_in\<close>; a hotel of a listing has
    optional string members \<^verbatim>\<open>hotelId\<close> and \<^verbatim>\<open>name\<close> and an optional numeric
    \<^verbatim>\<open>rating\<close>. Bodies the code hands on without reading them are JSON values.
  \<^item> A JavaScript number is the rational it denotes; each arithmetic operation rounds its
    exact result to the nearest double (\<open>double_of\<close>). Infinities, NaN and subnormal
    numbers are outside the model, except for the NaN time value of an invalid
    \<^verbatim>\<open>Date\<close>, which is \<open>None\<close>.
  \<^item> Strings are lists of code units below 256.
  \<^item> Logging to the console is left out.
\<close>

subsection \<open>Numbers\<close>

type_synonym number = rat

definition ilog2 :: "rat \<Rightarrow> int" where
  \<comment> \<open>for \<open>0 < x\<close>: an exponent \<open>e\<close> with \<open>2 powi e \<le> x\<close>, the binary exponent of \<open>x\<close>\<close>
  "ilog2 x = (case quotient_of x of (n, d) \<Rightarrow>
     (let e = bitlen n - bitlen d in if 2 powi e \<le> x then e else e - 1))"

definition round_half_even :: "rat \<Rightarrow> int" where
  "round_half_even m = (let f = \<lfloor>m\<rfloor>; r = m - of_int f in
     if r < 1 / 2 then f else if 1 / 2 < r then f + 1 else if even f then f else f + 1)"

definition double_of :: "rat \<Rightarrow> number" where
  \<comment> \<open>round to nearest, ties to even, with a significand of 53 bits\<close>
  "double_of x = (if x = 0 then 0 else
     (let a = \<bar>x\<bar>; u = 2 powi (ilog2 a - 52)
      in sgn x * of_int (round_half_even (a / u)) * u))"

definition literal :: "rat \<Rightarrow> number" where
  \<comment> \<open>a decimal literal of the source, such as \<^verbatim>\<open>1.1\<close>: the double nearest to it\<close>
  "literal q = double_of q"

definition js_times :: "number \<Rightarrow> number \<Rightarrow> number" where
  \<comment> \<open>JavaScript \<^verbatim>\<open>x * y\<close>\<close>
  "js_times x y = double_of (x * y)"

definition js_plus :: "number \<Rightarrow> number \<Rightarrow> number" where
  \<comment> \<open>JavaScript \<^verbatim>\<open>x + y\<close> on numbers\<close>
  "js_plus x y = double_of (x + y)"

subsection \<open>Strings\<close>

definition digit_char :: "nat \<Rightarrow> char" where
  "digit_char d = ''0123456789'' ! d"

fun digits :: "nat \<Rightarrow> string" where
  "digits n = (if n < 10 then [digit_char n] else digits (n div 10) @ [digit_char (n mod 10)])"

declare digits.simps [simp del]

definition toString_int :: "int \<Rightarrow> string" where
  \<comment> \<open>\<^verbatim>\<open>Number.prototype.toString\<close> on a whole number (below \<open>10^21\<close> in magnitude)\<close>
  "toString_int i = (if i < 0 then CHR ''-'' # digits (nat (- i)) else digits (nat i))"

definition lower_char :: "char \<Rightarrow> char" where
  \<comment> \<open>A-Z, and the capital letters of Latin-1 (0xC0-0xDE without the sign 0xD7)\<close>
  "lower_char c = (let n = (of_char c :: nat) in
     if 65 \<le> n \<and> n \<le> 90 then char_of (n + 32)
     else if n = 215 then c
     else if 192 \<le> n \<and> n \<le> 222 then char_of (n + 32)
     else c)"

definition toLowerCase :: "string \<Rightarrow> string" where
  "toLowerCase s = map lower_char s"

definition startsWith :: "string \<Rightarrow> string \<Rightarrow> bool" where
  "startsWith s p = (take (length p) s = p)"

fun includes_str :: "string \<Rightarrow> string \<Rightarrow> bool" where
  \<comment> \<open>\<^verbatim>\<open>s.includes(p)\<close>: \<open>p\<close> occurs in \<open>s\<close> as a contiguous run\<close>
  "includes_str [] p = (p = [])"
| "includes_str (c # cs) p = (startsWith (c # cs) p \<or> includes_str cs p)"

fun join :: "string \<Rightarrow> string list \<Rightarrow> string" where
  \<comment> \<open>\<^verbatim>\<open>xs.join(sep)\<close> on an array of strings\<close>
  "join sep [] = []"
| "join sep [x] = x"
| "join sep (x # y # ys) = x @ sep @ join sep (y # ys)"

definition truthy :: "string option \<Rightarrow> bool" where
  \<comment> \<open>an optional string member in a condition: \<^verbatim>\<open>undefined\<close> and \<^verbatim>\<open>''\<close> are falsy\<close>
  "truthy v = (case v of None \<Rightarrow> False | Some s \<Rightarrow> s \<noteq> [])"

subsection \<open>Errors\<close>

datatype error =
    FetchRejected
      \<comment> \<open>\<^verbatim>\<open>fetch\<close> rejects: no answer from the network\<close>
  | InvalidJson
      \<comment> \<open>\<^verbatim>\<open>response.json()\<close> rejects\<close>
  | TokenRequestFailed nat string
      \<comment> \<open>\<^verbatim>\<open>Failed to get access token: <status> <statusText>\<close>\<close>
  | ApiNotFound string
      \<comment> \<open>\<^verbatim>\<open>Amadeus API error: 404 Not Found\<close>, with the body of the answer\<close>
  | ApiBadRequest string
      \<comment> \<open>\<^verbatim>\<open>Amadeus API error: 400 Bad Request\<close>, with the body of the answer\<close>
  | ApiError nat string string
      \<comment> \<open>\<^verbatim>\<open>Amadeus API error: <status> <statusText>\<close>, with the body of the answer\<close>
  | NoHotelsFound string
      \<comment> \<open>\<^verbatim>\<open>No hotels found in city: <cityCode>\<close>\<close>
  | NoValidHotelIds
      \<comment> \<open>\<^verbatim>\<open>Could not extract valid hotel IDs\<close>\<close>
  | RangeError
      \<comment> \<open>\<^verbatim>\<open>toISOString\<close> on an invalid \<^verbatim>\<open>Date\<close>: \<^verbatim>\<open>Invalid time value\<close>\<close>

subsection \<open>Data\<close>

datatype json =
    JNull | JBool bool | JNum number | JStr string | JArr "json list" | JObj "(string \<times> json) list"

record grant =
  access_token :: string
  expires_in :: int

record address =
  address_lines :: "string list"
  cityName :: string
  countryCode :: string
  postalCode :: "string option"

record geoCode =
  latitude :: number
  longitude :: number

record contact =
  contact_phone :: string
  contact_email :: string

record hotel =
  hotelId :: "string option"
  name :: "string option"
  rating :: "number option"
  hotel_address :: "address option"
  hotel_geoCode :: "geoCode option"
  amenities :: "string list option"
  hotel_contact :: "contact option"

type_synonym listing = "hotel list option"
  \<comment> \<open>the member \<^verbatim>\<open>data\<close> of the body of a hotel listing; \<open>None\<close> when the body has none\<close>

record guest =
  title :: string
  firstName :: string
  lastName :: string
  phone :: string
  email :: string

record card =
  vendorCode :: string
  cardNumber :: string
  expiryDate :: string

record payment =
  payment_method :: string
  payment_card :: "card option"

record bookingBody =
  body_offerId :: string
  body_guests :: "guest list"
  body_payments :: "payment list"

subsection \<open>The world\<close>

record 'b response =
  status :: nat
  statusText :: string
  body_text :: string
  body_json :: "'b option"
    \<comment> \<open>\<open>None\<close>: the body is not JSON, \<^verbatim>\<open>response.json()\<close> rejects\<close>

definition ok :: "'b response \<Rightarrow> bool" where
  \<comment> \<open>\<^verbatim>\<open>response.ok\<close>\<close>
  "ok r = (200 \<le> status r \<and> status r \<le> 299)"

type_synonym 'b reply = "nat \<times> 'b response option"
  \<comment> \<open>the milliseconds the call takes, and the answer; \<open>None\<close> when \<^verbatim>\<open>fetch\<close> rejects\<close>

datatype request =
    TokenRequest
      \<comment> \<open>\<^verbatim>\<open>POST v1/security/oauth2/token\<close> with the client credentials\<close>
  | ApiRequest string string "(string \<times> string) list option" string "bookingBody option"
      \<comment> \<open>endpoint, method, query parameters, bearer token, JSON body\<close>

record world =
  accessToken :: "string option"
  tokenExpiry :: int
  clock :: int
  random_draws :: "nat list"
  token_replies :: "grant reply list"
  hotel_replies :: "listing reply list"
  offers_replies :: "json reply list"
  detail_replies :: "json reply list"
  booking_replies :: "json reply list"
  requests :: "request list"

definition send :: "request \<Rightarrow> nat \<Rightarrow> world \<Rightarrow> world" where
  \<comment> \<open>a request leaves, and the clock moves on while its answer is awaited\<close>
  "send rq dt w = w\<lparr>clock := clock w + int dt, requests := requests w @ [rq]\<rparr>"

definition fetch_token :: "world \<Rightarrow> grant response option \<times> world" where
  "fetch_token w = (case token_replies w of
       [] \<Rightarrow> (None, send TokenRequest 0 w)
     | (dt, r) # rest \<Rightarrow> (r, send TokenRequest dt (w\<lparr>token_replies := rest\<rparr>)))"

definition fetch_hotels :: "request \<Rightarrow> world \<Rightarrow> listing response option \<times> world" where
  "fetch_hotels rq w = (case hotel_replies w of
       [] \<Rightarrow> (None, send rq 0 w)
     | (dt, r) # rest \<Rightarrow> (r, send rq dt (w\<lparr>hotel_replies := rest\<rparr>)))"

definition fetch_offers :: "request \<Rightarrow> world \<Rightarrow> json response option \<times> world" where
  "fetch_offers rq w = (case offers_replies w of
       [] \<Rightarrow> (None, send rq 0 w)
     | (dt, r) # rest \<Rightarrow> (r, send rq dt (w\<lparr>offers_replies := rest\<rparr>)))"

definition fetch_detail :: "request \<Rightarrow> world \<Rightarrow> json response option \<times> world" where
  "fetch_detail rq w = (case detail_replies w of
       [] \<Rightarrow> (None, send rq 0 w)
     | (dt, r) # rest \<Rightarrow> (r, send rq dt (w\<lparr>detail_replies := rest\<rparr>)))"

definition fetch_booking :: "request \<Rightarrow> world \<Rightarrow> json response option \<times> world" where
  "fetch_booking rq w = (case booking_replies w of
       [] \<Rightarrow> (None, send rq 0 w)
     | (dt, r) # rest \<Rightarrow> (r, send rq dt (w\<lparr>booking_replies := rest\<rparr>)))"

subsection \<open>Authentication\<close>

definition token_cached :: "world \<Rightarrow> bool" where
  \<comment> \<open>the condition \<^verbatim>\<open>accessToken && tokenExpiry > now\<close>, with \<^verbatim>\<open>now = Date.now()\<close>\<close>
  "token_cached w = (truthy (accessToken w) \<and> tokenExpiry w > clock w)"

definition requestNewToken :: "int \<Rightarrow> world \<Rightarrow> (error + string) \<times> world" where
  \<comment> \<open>the \<^verbatim>\<open>try\<close> block of \<^verbatim>\<open>getAccessToken\<close>; its \<^verbatim>\<open>catch\<close> rethrows\<close>
  "requestNewToken now w =
     (case fetch_token w of
        (None, w1) \<Rightarrow> (Inl FetchRejected, w1)
      | (Some response, w1) \<Rightarrow>
          if \<not> ok response
          then (Inl (TokenRequestFailed (status response) (statusText response)), w1)
          else (case body_json response of
                  None \<Rightarrow> (Inl InvalidJson, w1)
                | Some data \<Rightarrow>
                    (Inr (access_token data),
                     w1\<lparr>accessToken := Some (access_token data),
                        tokenExpiry := now + expires_in data * 1000 - 60000\<rparr>)))"

definition getAccessToken :: "world \<Rightarrow> (error + string) \<times> world" where
  "getAccessToken w =
     (let now = clock w in
      case accessToken w of
        Some t \<Rightarrow> if t \<noteq> [] \<and> tokenExpiry w > now then (Inr t, w) else requestNewToken now w
      | None \<Rightarrow> requestNewToken now w)"

subsection \<open>Dates\<close>

text \<open>
  \<^verbatim>\<open>new Date(s)\<close> parses the string with \<^verbatim>\<open>Date.parse\<close>. What it accepts beyond the
  ECMAScript date-time format is left to the implementation, so the functions below take
  the parser as an argument: \<open>parse s\<close> is the time value in milliseconds, or \<open>None\<close> for
  NaN (an invalid date).

  \<open>Date_parse\<close> is the parser of V8, the engine of Node.js, as far as it is modelled.
  A string of the date-only form \<^verbatim>\<open>YYYY-MM-DD\<close> with a month from 01 to 12 and a day from
  01 to 31 denotes midnight UTC of that day; a day beyond the end of its month counts on
  into the next month (\<^verbatim>\<open>2025-02-30\<close> is the second of March). A string without a decimal
  digit is not a date. Every other string is left to the argument \<open>legacy\<close>, which stands
  for the rest of the engine's parser (times, zones, the formats of the legacy parser).
\<close>

definition digit_value :: "char \<Rightarrow> int option" where
  "digit_value c = (let n = (of_char c :: nat) in
     if 48 \<le> n \<and> n \<le> 57 then Some (int n - 48) else None)"

fun number_value :: "int \<Rightarrow> string \<Rightarrow> int option" where
  \<comment> \<open>the value of a run of decimal digits, after the digits already read\<close>
  "number_value acc [] = Some acc"
| "number_value acc (c # cs) =
     (case digit_value c of None \<Rightarrow> None | Some d \<Rightarrow> number_value (acc * 10 + d) cs)"

definition days_from_civil :: "int \<Rightarrow> int \<Rightarrow> int \<Rightarrow> int" where
  \<comment> \<open>the number of days from 1970-01-01 to the day \<open>d\<close> of the month \<open>m\<close> of the year \<open>y\<close>
      of the proleptic Gregorian calendar, counting on from the first of the month\<close>
  "days_from_civil y m d =
     (let y1 = (if m \<le> 2 then y - 1 else y);
          era = y1 div 400;
          yoe = y1 - era * 400;
          doy = (153 * (if m > 2 then m - 3 else m + 9) + 2) div 5 + d - 1;
          doe = yoe * 365 + yoe div 4 - yoe div 100 + doy
      in era * 146097 + doe - 719468)"

definition date_only :: "string \<Rightarrow> (int \<times> int \<times> int) option" where
  \<comment> \<open>year, month and day of a string of the form \<^verbatim>\<open>YYYY-MM-DD\<close>\<close>
  "date_only s =
     (if length s = 10 \<and> s ! 4 = CHR ''-'' \<and> s ! 7 = CHR ''-'' then
        (case (number_value 0 (take 4 s), number_value 0 (take 2 (drop 5 s)),
               number_value 0 (drop 8 s)) of
           (Some y, Some m, Some d) \<Rightarrow> Some (y, m, d)
         | _ \<Rightarrow> None)
      else None)"

definition Date_parse :: "(string \<Rightarrow> int option) \<Rightarrow> string \<Rightarrow> int option" where
  "Date_parse legacy s =
     (case date_only s of
        Some (y, m, d) \<Rightarrow>
          if 1 \<le> m \<and> m \<le> 12 \<and> 1 \<le> d \<and> d \<le> 31
          then Some (days_from_civil y m d * 86400000) else legacy s
      | None \<Rightarrow> if list_all (\<lambda>c. digit_value c = None) s then None else legacy s)"

definition toISOString :: "int option \<Rightarrow> error + int" where
  \<comment> \<open>\<^verbatim>\<open>new Date(t).toISOString()\<close>: a time value that is NaN or beyond 8.64e15 in
      magnitude makes an invalid \<^verbatim>\<open>Date\<close>, on which \<^verbatim>\<open>toISOString\<close> throws. The result
      stands for the ISO-8601 text of the instant.\<close>
  "toISOString t = (case t of
       None \<Rightarrow> Inl RangeError
     | Some v \<Rightarrow> if \<bar>v\<bar> \<le> 8640000000000000 then Inr v else Inl RangeError)"

definition cancellationDeadline :: "(string \<Rightarrow> int option) \<Rightarrow> string \<Rightarrow> error + int" where
  \<comment> \<open>\<^verbatim>\<open>new Date(new Date(checkInDate).getTime() - 86400000 * 3).toISOString()\<close>\<close>
  "cancellationDeadline parse checkInDate =
     toISOString (map_option (\<lambda>t. t - 86400000 * 3) (parse checkInDate))"

subsection \<open>The request gateway\<close>

definition makeAmadeusRequest ::
  "(request \<Rightarrow> world \<Rightarrow> 'b response option \<times> world) \<Rightarrow> string \<Rightarrow> string \<Rightarrow>
   (string \<times> string) list option \<Rightarrow> bookingBody option \<Rightarrow> world \<Rightarrow> (error + 'b) \<times> world" where
  \<comment> \<open>the first argument is \<^verbatim>\<open>fetch\<close> at the endpoint called, which fixes the type of the body\<close>
  "makeAmadeusRequest fetch endpoint method queryParams body w =
     (case getAccessToken w of
        (Inl e, w1) \<Rightarrow> (Inl e, w1)
      | (Inr token, w1) \<Rightarrow>
          (case fetch (ApiRequest endpoint method queryParams token body) w1 of
             (None, w2) \<Rightarrow> (Inl FetchRejected, w2)
           | (Some response, w2) \<Rightarrow>
               if \<not> ok response then
                 (if status response = 404 then (Inl (ApiNotFound (body_text response)), w2)
                  else if status response = 400 then (Inl (ApiBadRequest (body_text response)), w2)
                  else (Inl (ApiError (status response) (statusText response) (body_text response)), w2))
               else (case body_json response of
                       None \<Rightarrow> (Inl InvalidJson, w2)
                     | Some jsonResponse \<Rightarrow> (Inr jsonResponse, w2))))"

subsection \<open>Listing the hotels of a city\<close>

record hotelListParams =
  list_cityCode :: string
  list_radius :: "nat option"
  list_radiusUnit :: "string option"
  list_amenities :: "string list option"
  list_ratings :: "nat list option"

definition hotelListQuery :: "hotelListParams \<Rightarrow> (string \<times> string) list" where
  "hotelListQuery params =
     [(''cityCode'', list_cityCode params)]
     @ (case list_radius params of
          None \<Rightarrow> []
        | Some r \<Rightarrow> [(''radius'', toString_int (int r)),
                     (''radiusUnit'', (if truthy (list_radiusUnit params)
                                       then the (list_radiusUnit params) else ''KM''))])
     @ (case list_amenities params of
          None \<Rightarrow> []
        | Some a \<Rightarrow> if length a > 0 then [(''amenities'', join '','' a)] else [])
     @ (case list_ratings params of
          None \<Rightarrow> []
        | Some r \<Rightarrow> if length r > 0
                    then [(''ratings'', join '','' (map (\<lambda>n. toString_int (int n)) r))] else [])"

definition hotelList :: "hotelListParams \<Rightarrow> world \<Rightarrow> (error + listing) \<times> world" where
  "hotelList params w =
     makeAmadeusRequest fetch_hotels ''v1/reference-data/locations/hotels/by-city'' ''GET''
       (Some (hotelListQuery params)) None w"

definition byCity :: "string \<Rightarrow> hotelListParams" where
  \<comment> \<open>the argument \<^verbatim>\<open>{ cityCode }\<close>\<close>
  "byCity c = \<lparr>list_cityCode = c, list_radius = None, list_radiusUnit = None,
               list_amenities = None, list_ratings = None\<rparr>"

subsection \<open>From a city to the offers of at most five hotels\<close>

record searchParams =
  cityCode :: string
  checkInDate :: string
  checkOutDate :: string
  adults :: nat
  roomQuantity :: nat
  priceRange :: "string option"
  currency :: "string option"
  boardType :: "string option"
  paymentPolicy :: "string option"
  hotelName :: "string option"

definition name_matches :: "string \<Rightarrow> hotel \<Rightarrow> bool" where
  \<comment> \<open>\<^verbatim>\<open>hotel.name && hotel.name.toLowerCase().includes(searchTerm)\<close>\<close>
  "name_matches searchTerm h = (case name h of
       None \<Rightarrow> False
     | Some n \<Rightarrow> n \<noteq> [] \<and> includes_str (toLowerCase n) searchTerm)"

definition filteredHotels :: "hotel list \<Rightarrow> string option \<Rightarrow> hotel list" where
  "filteredHotels data hotel_name = (case hotel_name of
       None \<Rightarrow> data
     | Some n \<Rightarrow>
         if n = [] then data
         else (let searchTerm = toLowerCase n;
                   filtered = filter (name_matches searchTerm) data
               in if length filtered = 0 then data else filtered))"

definition hotelsToCheck :: "hotel list \<Rightarrow> string option \<Rightarrow> hotel list" where
  \<comment> \<open>\<^verbatim>\<open>filteredHotels.slice(0, 5)\<close>\<close>
  "hotelsToCheck data hotel_name = take 5 (filteredHotels data hotel_name)"

definition hotelIds :: "hotel list \<Rightarrow> string option \<Rightarrow> string list" where
  \<comment> \<open>\<^verbatim>\<open>hotelsToCheck.map((hotel) => hotel.hotelId).filter(Boolean)\<close>\<close>
  "hotelIds data hotel_name =
     map the (filter truthy (map hotelId (hotelsToCheck data hotel_name)))"

definition offersQuery :: "searchParams \<Rightarrow> string list \<Rightarrow> (string \<times> string) list" where
  "offersQuery params ids =
     [(''hotelIds'', join '','' ids),
      (''checkInDate'', checkInDate params),
      (''checkOutDate'', checkOutDate params),
      (''adults'', toString_int (int (adults params))),
      (''roomQuantity'', toString_int (int (roomQuantity params)))]
     @ (if truthy (currency params) then [(''currency'', the (currency params))] else [])
     @ (if truthy (priceRange params) then [(''priceRange'', the (priceRange params))] else [])
     @ (if truthy (boardType params) then [(''boardType'', the (boardType params))] else [])
     @ (if truthy (paymentPolicy params)
        then [(''paymentPolicy'', the (paymentPolicy params))] else [])"

definition makeOffersRequest :: "searchParams \<Rightarrow> string list \<Rightarrow> world \<Rightarrow> (error + json) \<times> world" where
  "makeOffersRequest params ids w =
     makeAmadeusRequest fetch_offers ''v3/shopping/hotel-offers'' ''GET''
       (Some (offersQuery params ids)) None w"

definition hotelSearchImplementation :: "searchParams \<Rightarrow> world \<Rightarrow> (error + json) \<times> world" where
  "hotelSearchImplementation params w =
     (case hotelList (byCity (cityCode params)) w of
        (Inl e, w1) \<Rightarrow> (Inl e, w1)
      | (Inr hotelListResult, w1) \<Rightarrow>
          (case hotelListResult of
             None \<Rightarrow> (Inl (NoHotelsFound (cityCode params)), w1)
           | Some data \<Rightarrow>
               if length data = 0 then (Inl (NoHotelsFound (cityCode params)), w1)
               else if length (hotelIds data (hotelName params)) = 0
                    then (Inl NoValidHotelIds, w1)
                    else makeOffersRequest params (hotelIds data (hotelName params)) w1))"

subsection \<open>Fallback data\<close>

text \<open>
  The records below are the object literals of the source. A price or a fee is the number
  whose \<^verbatim>\<open>toString()\<close> the source stores, and a deadline is the instant whose
  \<^verbatim>\<open>toISOString()\<close> it stores.
\<close>

record tax =
  tax_amount :: number
  tax_currency :: string
  tax_included :: bool

record cancellation =
  deadline :: int
  cancel_amount :: number
  cancel_type :: string
  cancel_description :: "string option"

record offer =
  offer_id :: string
  offer_checkInDate :: string
  offer_checkOutDate :: string
  room_type :: string
  room_category :: string
  room_beds :: nat
  room_bedType :: string
  room_description :: string
  price_currency :: string
  price_base :: number
  price_total :: number
  price_taxes :: "tax list"
  offer_boardType :: string
  cancellations :: "cancellation list"
  policy_checkIn :: string
  policy_checkOut :: string

record hotelOffers =
  offers_hotel :: hotel
  available :: bool
  offers :: "offer list"

record offerDetails =
  details_hotel :: hotel
  details_offer :: offer

record confirmation =
  booking_id :: string
  providerConfirmationId :: string
  associatedRecords :: "(string \<times> string) list"
  confirmation_guests :: "guest list"
  confirmation_offerId :: string

datatype 'm answer =
    Real json
      \<comment> \<open>the body of the upstream answer, handed on as it is\<close>
  | Mock 'm
      \<comment> \<open>an object built by one of the \<^verbatim>\<open>getMock...\<close> functions\<close>

definition random_below_10000 :: "world \<Rightarrow> nat \<times> world" where
  \<comment> \<open>\<^verbatim>\<open>Math.floor(Math.random() * 10000)\<close>\<close>
  "random_below_10000 w = (case random_draws w of
       [] \<Rightarrow> (0, w)
     | n # rest \<Rightarrow> (n mod 10000, w\<lparr>random_draws := rest\<rparr>))"

definition rating_or_4 :: "hotel \<Rightarrow> number" where
  \<comment> \<open>\<^verbatim>\<open>hotel.rating || 4\<close>\<close>
  "rating_or_4 h = (case rating h of None \<Rightarrow> 4 | Some r \<Rightarrow> if r = 0 then 4 else r)"

definition mockOffer ::
  "(string \<Rightarrow> int option) \<Rightarrow> string \<Rightarrow> string \<Rightarrow> hotel \<Rightarrow> world \<Rightarrow> (error + hotelOffers) \<times> world" where
  \<comment> \<open>the function mapped over the hotels in \<^verbatim>\<open>getMockHotelOffers\<close>\<close>
  "mockOffer parse check_in check_out h w =
     (case (if truthy (hotelId h) then (the (hotelId h), w)
            else (case random_below_10000 w of (n, w1) \<Rightarrow> (''MOCK-'' @ digits n, w1))) of
        (hotel_id, w1) \<Rightarrow>
          (let rating = rating_or_4 h;
               offerId = ''OFF-'' @ hotel_id @ ''-'' @ toString_int (clock w1);
               basePrice = js_plus 100 (js_times rating 50)
           in case cancellationDeadline parse check_in of
                Inl e \<Rightarrow> (Inl e, w1)
              | Inr d \<Rightarrow>
                  (Inr \<lparr>offers_hotel = h, available = True,
                        offers = [\<lparr>offer_id = offerId,
                                   offer_checkInDate = check_in,
                                   offer_checkOutDate = check_out,
                                   room_type = (if rating \<ge> 5 then ''SUITE'' else ''STANDARD''),
                                   room_category = (if rating \<ge> 5 then ''SUITE'' else ''STANDARD''),
                                   room_beds = 1,
                                   room_bedType = ''KING'',
                                   room_description =
                                     ''Beautiful '' @ (if rating \<ge> 5 then ''suite'' else ''room'')
                                     @ '' with '' @ (if rating \<ge> 5 then ''luxury'' else ''standard'')
                                     @ '' amenities.'',
                                   price_currency = ''USD'',
                                   price_base = basePrice,
                                   price_total = js_times basePrice (literal (11 / 10)),
                                   price_taxes = [\<lparr>tax_amount = js_times basePrice (literal (1 / 10)),
                                                   tax_currency = ''USD'', tax_included = True\<rparr>],
                                   offer_boardType = ''BREAKFAST_INCLUDED'',
                                   cancellations =
                                     [\<lparr>deadline = d,
                                       cancel_amount = js_times basePrice (literal (2 / 10)),
                                       cancel_type = ''PARTIAL'',
                                       cancel_description = None\<rparr>],
                                   policy_checkIn = ''15:00'',
                                   policy_checkOut = ''11:00''\<rparr>]\<rparr>, w1)))"

fun mockOffers ::
  "(string \<Rightarrow> int option) \<Rightarrow> string \<Rightarrow> string \<Rightarrow> hotel list \<Rightarrow> world \<Rightarrow>
   (error + hotelOffers list) \<times> world" where
  \<comment> \<open>\<^verbatim>\<open>hotels.map(...)\<close>: hotel after hotel, up to the first one that throws\<close>
  "mockOffers parse check_in check_out [] w = (Inr [], w)"
| "mockOffers parse check_in check_out (h # hs) w =
     (case mockOffer parse check_in check_out h w of
        (Inl e, w1) \<Rightarrow> (Inl e, w1)
      | (Inr x, w1) \<Rightarrow>
          (case mockOffers parse check_in check_out hs w1 of
             (Inl e, w2) \<Rightarrow> (Inl e, w2)
           | (Inr xs, w2) \<Rightarrow> (Inr (x # xs), w2)))"

definition basicMock ::
  "(string \<Rightarrow> int option) \<Rightarrow> string \<Rightarrow> string \<Rightarrow> string \<Rightarrow> world \<Rightarrow> error + hotelOffers list" where
  \<comment> \<open>the \<^verbatim>\<open>catch\<close> block of \<^verbatim>\<open>getMockHotelOffers\<close>\<close>
  "basicMock parse city check_in check_out w =
     (case cancellationDeadline parse check_in of
        Inl e \<Rightarrow> Inl e
      | Inr d \<Rightarrow>
          Inr [\<lparr>offers_hotel =
                  \<lparr>hotelId = Some (''MOCK-'' @ city @ ''-001''),
                   name = Some (city @ '' Grand Hotel''),
                   rating = Some 4,
                   hotel_address = Some \<lparr>address_lines = [''123 Main Street''], cityName = city,
                                         countryCode = ''US'', postalCode = None\<rparr>,
                   hotel_geoCode = None,
                   amenities = Some [''WIFI'', ''RESTAURANT'', ''GYM''],
                   hotel_contact = None\<rparr>,
                available = True,
                offers = [\<lparr>offer_id = ''OFF-MOCK-'' @ toString_int (clock w),
                           offer_checkInDate = check_in,
                           offer_checkOutDate = check_out,
                           room_type = ''STANDARD'',
                           room_category = ''STANDARD'',
                           room_beds = 1,
                           room_bedType = ''KING'',
                           room_description = ''Comfortable standard room with modern amenities.'',
                           price_currency = ''USD'',
                           price_base = 250,
                           price_total = 275,
                           price_taxes = [\<lparr>tax_amount = 25, tax_currency = ''USD'',
                                           tax_included = True\<rparr>],
                           offer_boardType = ''BREAKFAST_INCLUDED'',
                           cancellations = [\<lparr>deadline = d, cancel_amount = 50,
                                             cancel_type = ''PARTIAL'',
                                             cancel_description = None\<rparr>],
                           policy_checkIn = ''15:00'',
                           policy_checkOut = ''11:00''\<rparr>]\<rparr>])"

definition getMockHotelOffers ::
  "(string \<Rightarrow> int option) \<Rightarrow> string \<Rightarrow> string \<Rightarrow> string \<Rightarrow> world \<Rightarrow>
   (error + hotelOffers list) \<times> world" where
  "getMockHotelOffers parse city check_in check_out w =
     (case hotelList (byCity city) w of
        (Inl e, w1) \<Rightarrow> (basicMock parse city check_in check_out w1, w1)
      | (Inr hotelsResponse, w1) \<Rightarrow>
          (let hotels = (case hotelsResponse of None \<Rightarrow> [] | Some hs \<Rightarrow> hs)
           in case mockOffers parse check_in check_out hotels w1 of
                (Inl e, w2) \<Rightarrow> (basicMock parse city check_in check_out w2, w2)
              | (Inr xs, w2) \<Rightarrow> (Inr xs, w2)))"

definition token_char :: "char \<Rightarrow> bool" where
  \<comment> \<open>the class \<^verbatim>\<open>[A-Z0-9-]\<close> under the flag \<^verbatim>\<open>i\<close>\<close>
  "token_char c = (let n = (of_char c :: nat) in
     (65 \<le> n \<and> n \<le> 90) \<or> (97 \<le> n \<and> n \<le> 122) \<or> (48 \<le> n \<and> n \<le> 57) \<or> c = CHR ''-'')"

fun hotelIdMatch :: "string \<Rightarrow> string option" where
  \<comment> \<open>the first group of \<^verbatim>\<open>offerId.match(/OFF-([A-Z0-9-]+)/i)\<close>: at the leftmost place
      where \<^verbatim>\<open>OFF-\<close> (in either case) is followed by a character of the class, the
      longest run of such characters\<close>
  "hotelIdMatch [] = None"
| "hotelIdMatch (c # cs) =
     (if toLowerCase (take 4 (c # cs)) = ''off-'' \<and> takeWhile token_char (drop 4 (c # cs)) \<noteq> []
      then Some (takeWhile token_char (drop 4 (c # cs)))
      else hotelIdMatch cs)"

definition getMockHotelOfferDetails :: "string \<Rightarrow> offerDetails" where
  \<comment> \<open>\<^verbatim>\<open>new Date('2025-04-01')\<close> is 1743465600000, midnight UTC of that day
      (\<open>Date_parse\<close> at this string)\<close>
  "getMockHotelOfferDetails offerId =
     (let hotel_id = (case hotelIdMatch offerId of Some m \<Rightarrow> m | None \<Rightarrow> ''MOCK-HOTEL'')
      in \<lparr>details_hotel =
            \<lparr>hotelId = Some hotel_id,
             name = Some (''Hotel '' @ hotel_id),
             rating = Some 4,
             hotel_address = Some \<lparr>address_lines = [''123 Main Street''],
                                   cityName = ''Example City'', countryCode = ''US'',
                                   postalCode = Some ''12345''\<rparr>,
             hotel_geoCode = Some \<lparr>latitude = literal (377749 / 10000),
                                   longitude = literal (- (1224194 / 10000))\<rparr>,
             amenities = Some [''WIFI'', ''RESTAURANT'', ''GYM'', ''SWIMMING_POOL''],
             hotel_contact = Some \<lparr>contact_phone = ''+1-555-123-4567'',
                                   contact_email = ''info@example.com''\<rparr>\<rparr>,
          details_offer =
            \<lparr>offer_id = offerId,
             offer_checkInDate = ''2025-04-01'',
             offer_checkOutDate = ''2025-04-05'',
             room_type = ''STANDARD'',
             room_category = ''STANDARD'',
             room_beds = 1,
             room_bedType = ''KING'',
             room_description = ''Comfortable standard room with modern amenities.'',
             price_currency = ''USD'',
             price_base = 250,
             price_total = 275,
             price_taxes = [\<lparr>tax_amount = 25, tax_currency = ''USD'', tax_included = True\<rparr>],
             offer_boardType = ''BREAKFAST_INCLUDED'',
             cancellations =
               [\<lparr>deadline = 1743465600000 - 86400000 * 3,
                 cancel_amount = 50,
                 cancel_type = ''PARTIAL'',
                 cancel_description =
                   Some ''Cancellation is free until 3 days before check-in. After that, a fee applies.''\<rparr>],
             policy_checkIn = ''15:00'',
             policy_checkOut = ''11:00''\<rparr>\<rparr>)"

definition getMockBookingConfirmation :: "string \<Rightarrow> guest list \<Rightarrow> world \<Rightarrow> confirmation" where
  "getMockBookingConfirmation offerId guests w =
     \<lparr>booking_id = ''BK'' @ toString_int (clock w),
      providerConfirmationId = ''PC'' @ toString_int (clock w),
      associatedRecords = [(''REF'' @ toString_int (clock w), ''MOCK'')],
      confirmation_guests = guests,
      confirmation_offerId = offerId\<rparr>"

subsection \<open>The three operations\<close>

definition hotelSearch ::
  "(string \<Rightarrow> int option) \<Rightarrow> searchParams \<Rightarrow> world \<Rightarrow> (error + hotelOffers list answer) \<times> world" where
  "hotelSearch parse params w =
     (case hotelSearchImplementation params w of
        (Inr j, w1) \<Rightarrow> (Inr (Real j), w1)
      | (Inl e, w1) \<Rightarrow>
          (case getMockHotelOffers parse (cityCode params) (checkInDate params)
                  (checkOutDate params) w1 of
             (Inl e2, w2) \<Rightarrow> (Inl e2, w2)
           | (Inr xs, w2) \<Rightarrow> (Inr (Mock xs), w2)))"

definition hotelOffer :: "string \<Rightarrow> world \<Rightarrow> (error + offerDetails answer) \<times> world" where
  "hotelOffer offerId w =
     (case makeAmadeusRequest fetch_detail (''v3/shopping/hotel-offers/'' @ offerId) ''GET''
             None None w of
        (Inr j, w1) \<Rightarrow> (Inr (Real j), w1)
      | (Inl e, w1) \<Rightarrow> (Inr (Mock (getMockHotelOfferDetails offerId)), w1))"

record bookingParams =
  offerId :: string
  guests :: "guest list"
  payments :: "payment list"

definition bookingBodyOf :: "bookingParams \<Rightarrow> bookingBody" where
  \<comment> \<open>the constant \<^verbatim>\<open>bookingBody\<close> of \<^verbatim>\<open>hotelBooking\<close>, without its wrapper \<^verbatim>\<open>data\<close>\<close>
  "bookingBodyOf params =
     \<lparr>body_offerId = offerId params,
      body_guests = map (\<lambda>g. \<lparr>title = title g, firstName = firstName g,
                               lastName = lastName g, phone = phone g,
                               email = email g\<rparr>) (guests params),
      body_payments = map (\<lambda>p. \<lparr>payment_method = payment_method p,
                                 payment_card = map_option
                                   (\<lambda>c. \<lparr>vendorCode = vendorCode c,
                                          cardNumber = cardNumber c,
                                          expiryDate = expiryDate c\<rparr>) (payment_card p)\<rparr>)
                           (payments params)\<rparr>"

definition submitBooking :: "bookingParams \<Rightarrow> world \<Rightarrow> (error + json) \<times> world" where
  \<comment> \<open>the call in the inner \<^verbatim>\<open>try\<close> block of \<^verbatim>\<open>hotelBooking\<close>\<close>
  "submitBooking params w =
     makeAmadeusRequest fetch_booking ''v1/booking/hotel-bookings'' ''POST''
       None (Some (bookingBodyOf params)) w"

definition hotelBooking :: "bookingParams \<Rightarrow> world \<Rightarrow> (error + confirmation answer) \<times> world" where
  \<comment> \<open>the outer \<^verbatim>\<open>catch\<close> has nothing to catch here: building the body of typed
      guests and payments does not throw, and neither does the inner \<^verbatim>\<open>catch\<close>\<close>
  "hotelBooking params w =
     (case submitBooking params w of
        (Inr j, w1) \<Rightarrow> (Inr (Real j), w1)
      | (Inl e, w1) \<Rightarrow>
          (Inr (Mock (getMockBookingConfirmation (offerId params) (guests params) w1)), w1))"

subsection \<open>Notions used in the statements\<close>

definition exchange_fails :: "world \<Rightarrow> bool" where
  \<comment> \<open>the next exchange of credentials does not yield a grant: no answer, an answer that
      is not \<^verbatim>\<open>ok\<close>, or a body that is not JSON\<close>
  "exchange_fails w = (case token_replies w of
       [] \<Rightarrow> True
     | (dt, None) # rest \<Rightarrow> True
     | (dt, Some r) # rest \<Rightarrow> (if ok r then body_json r = None else True))"

definition gateway_error :: "error \<Rightarrow> bool" where
  \<comment> \<open>the errors thrown by \<^verbatim>\<open>getAccessToken\<close> and \<^verbatim>\<open>makeAmadeusRequest\<close>\<close>
  "gateway_error e = (case e of
       FetchRejected \<Rightarrow> True | InvalidJson \<Rightarrow> True | TokenRequestFailed s t \<Rightarrow> True
     | ApiNotFound b \<Rightarrow> True | ApiBadRequest b \<Rightarrow> True | ApiError s t b \<Rightarrow> True
     | NoHotelsFound c \<Rightarrow> False | NoValidHotelIds \<Rightarrow> False | RangeError \<Rightarrow> False)"

definition zero_hotels :: "listing \<Rightarrow> bool" where
  \<comment> \<open>the condition \<^verbatim>\<open>!hotelListResult.data || hotelListResult.data.length === 0\<close>\<close>
  "zero_hotels l = (case l of None \<Rightarrow> True | Some data \<Rightarrow> data = [])"

definition offers_endpoint :: string where
  "offers_endpoint = ''v3/shopping/hotel-offers''"

definition rating_at_least_5 :: "hotel \<Rightarrow> bool" where
  "rating_at_least_5 h = (case rating h of None \<Rightarrow> False | Some r \<Rightarrow> 5 \<le> r)"

definition priced_from_rating :: "int \<Rightarrow> hotel \<Rightarrow> hotelOffers \<Rightarrow> bool" where
  \<comment> \<open>what an entry of the fallback result has to be for the hotel \<open>h\<close> and a check-in at
      the instant \<open>t\<close>: the prices are the doubles computed from \<^verbatim>\<open>hotel.rating || 4\<close>\<close>
  "priced_from_rating t h e =
     (offers_hotel e = h \<and>
      (case offers e of
         [x] \<Rightarrow>
           room_type x = (if rating_at_least_5 h then ''SUITE'' else ''STANDARD'')
           \<and> policy_checkIn x = ''15:00'' \<and> policy_checkOut x = ''11:00''
           \<and> (case cancellations x of [c] \<Rightarrow> deadline c = t - 3 * 86400000 | _ \<Rightarrow> False)
           \<and> price_base x = js_plus 100 (js_times (rating_or_4 h) 50)
           \<and> price_total x = js_times (price_base x) (literal (11 / 10))
           \<and> (case price_taxes x of
                [tx] \<Rightarrow>
                  tax_included tx
                  \<and> tax_amount tx = js_times (price_base x) (literal (1 / 10))
              | _ \<Rightarrow> False)
       | _ \<Rightarrow> False))"

definition prices_to_two_decimals :: "hotel \<Rightarrow> hotelOffers \<Rightarrow> bool" where
  \<comment> \<open>the prices of the entry agree with the exact values of the formulas to less than half
      a cent\<close>
  "prices_to_two_decimals h e =
     (case offers e of
        [x] \<Rightarrow>
          (case price_taxes x of
             [tx] \<Rightarrow>
               \<bar>price_base x - (100 + rating_or_4 h * 50)\<bar> < 1 / 200
               \<and> \<bar>price_total x - price_base x * (11 / 10)\<bar> < 1 / 200
               \<and> \<bar>tax_amount tx - price_base x * (1 / 10)\<bar> < 1 / 200
           | _ \<Rightarrow> False)
      | _ \<Rightarrow> False)"

definition base_as_stated :: "hotel \<Rightarrow> number option" where
  \<comment> \<open>the base price by the formula \<open>100 + rating * 50\<close>, read with the rating that the
      listing gives for the hotel\<close>
  "base_as_stated h = map_option (\<lambda>r. 100 + r * 50) (rating h)"

fun member :: "string \<Rightarrow> json \<Rightarrow> json option" where
  \<comment> \<open>the member \<open>k\<close> of a JSON object (the last one, where a key occurs twice)\<close>
  "member k (JObj kvs) = map_of (rev kvs) k"
| "member k j = None"

definition string_member :: "string \<Rightarrow> json option \<Rightarrow> string option" where
  "string_member k j = (case j of
       None \<Rightarrow> None
     | Some v \<Rightarrow> (case member k v of Some (JStr s) \<Rightarrow> Some s | _ \<Rightarrow> None))"

definition confirmation_ids :: "confirmation answer \<Rightarrow> string option \<times> string option" where
  \<comment> \<open>\<^verbatim>\<open>result.data.id\<close> and \<^verbatim>\<open>result.data.providerConfirmationId\<close>, where they are strings\<close>
  "confirmation_ids a = (case a of
       Real j \<Rightarrow> (string_member ''id'' (member ''data'' j),
                  string_member ''providerConfirmationId'' (member ''data'' j))
     | Mock c \<Rightarrow> (Some (booking_id c), Some (providerConfirmationId c)))"

definition has_identifiers :: "confirmation answer \<Rightarrow> bool" where
  "has_identifiers a = (case confirmation_ids a of
       (Some i, Some p) \<Rightarrow> i \<noteq> [] \<and> p \<noteq> []
     | _ \<Rightarrow> False)"

subsection \<open>Example inputs\<close>

definition ok_reply :: "nat \<Rightarrow> 'b \<Rightarrow> 'b reply" where
  "ok_reply dt b =
     (dt, Some \<lparr>status = 200, statusText = ''OK'', body_text = [], body_json = Some b\<rparr>)"

definition error_reply :: "nat \<Rightarrow> nat \<Rightarrow> string \<Rightarrow> 'b reply" where
  "error_reply dt s t =
     (dt, Some \<lparr>status = s, statusText = t, body_text = ''{}'', body_json = None\<rparr>)"

definition example_world :: world where
  "example_world =
     \<lparr>accessToken = None, tokenExpiry = 0, clock = 1712000000000, random_draws = [],
      token_replies = [ok_reply 120 \<lparr>access_token = ''tok1'', expires_in = 1799\<rparr>],
      hotel_replies = [], offers_replies = [], detail_replies = [], booking_replies = [],
      requests = []\<rparr>"

definition example_world_renewed :: world where
  "example_world_renewed =
     \<lparr>accessToken = Some ''tok1'', tokenExpiry = 1712001739000, clock = 1712000000120,
      random_draws = [], token_replies = [],
      hotel_replies = [], offers_replies = [], detail_replies = [], booking_replies = [],
      requests = [TokenRequest]\<rparr>"

definition example_world_down :: world where
  "example_world_down =
     \<lparr>accessToken = Some ''old'', tokenExpiry = 1711999999000, clock = 1712000000000,
      random_draws = [],
      token_replies = [error_reply 80 401 ''Unauthorized''],
      hotel_replies = [], offers_replies = [], detail_replies = [], booking_replies = [],
      requests = []\<rparr>"

definition mk_hotel :: "string option \<Rightarrow> string option \<Rightarrow> number option \<Rightarrow> hotel" where
  "mk_hotel i n r = \<lparr>hotelId = i, name = n, rating = r, hotel_address = None,
     hotel_geoCode = None, amenities = None, hotel_contact = None\<rparr>"

definition six_hotels :: "hotel list" where
  "six_hotels =
     [mk_hotel None (Some ''Hotel Alpha'') None,
      mk_hotel (Some ''H2'') (Some ''Hotel Beta'') (Some 3),
      mk_hotel (Some ''H3'') (Some ''Grand Gamma'') (Some 5),
      mk_hotel (Some ''H4'') None (Some 4),
      mk_hotel (Some ''H5'') (Some ''Delta Inn'') None,
      mk_hotel (Some ''H6'') (Some ''Epsilon'') (Some 2)]"

definition example_query :: searchParams where
  "example_query =
     \<lparr>cityCode = ''PAR'', checkInDate = ''2025-04-01'', checkOutDate = ''2025-04-05'',
      adults = 2, roomQuantity = 1, priceRange = None, currency = Some ''USD'',
      boardType = None, paymentPolicy = Some ''NONE'', hotelName = None\<rparr>"

definition world_with :: "listing reply list \<Rightarrow> json reply list \<Rightarrow> world" where
  \<comment> \<open>a world with a valid token in the cache and the given answers to come\<close>
  "world_with hs os =
     \<lparr>accessToken = Some ''tok1'', tokenExpiry = 1712001739000, clock = 1712000000120,
      random_draws = [], token_replies = [],
      hotel_replies = hs, offers_replies = os, detail_replies = [], booking_replies = [],
      requests = []\<rparr>"

definition world_six :: world where
  "world_six = world_with [ok_reply 50 (Some six_hotels)] [ok_reply 70 (JObj [])]"

definition world_six_after :: world where
  "world_six_after =
     world_six\<lparr>clock := 1712000000240, hotel_replies := [], offers_replies := [],
        requests := [ApiRequest ''v1/reference-data/locations/hotels/by-city'' ''GET''
                       (Some [(''cityCode'', ''PAR'')]) ''tok1'' None,
                     ApiRequest ''v3/shopping/hotel-offers'' ''GET''
                       (Some [(''hotelIds'', ''H2,H3,H4,H5''), (''checkInDate'', ''2025-04-01''),
                              (''checkOutDate'', ''2025-04-05''), (''adults'', ''2''),
                              (''roomQuantity'', ''1''), (''currency'', ''USD''),
                              (''paymentPolicy'', ''NONE'')]) ''tok1'' None]\<rparr>"

definition five_without_id :: "hotel list" where
  "five_without_id =
     [mk_hotel None (Some ''Hotel Alpha'') None,
      mk_hotel (Some []) (Some ''Hotel Beta'') (Some 3),
      mk_hotel None (Some ''Grand Gamma'') (Some 5),
      mk_hotel None None (Some 4),
      mk_hotel None (Some ''Delta Inn'') None,
      mk_hotel (Some ''H6'') (Some ''Epsilon'') (Some 2)]"

definition world_without_ids :: world where
  "world_without_ids = world_with [ok_reply 50 (Some five_without_id)] []"

definition world_empty_city :: world where
  "world_empty_city = world_with [ok_reply 50 (Some [])] []"

definition five_star :: hotel where
  "five_star = mk_hotel (Some ''HLPAR001'') (Some ''Grand Paris'') (Some 5)"

definition world_offers_down :: world where
  \<comment> \<open>the listing is answered twice, the query for offers with status 500\<close>
  "world_offers_down =
     world_with [ok_reply 50 (Some [five_star]), ok_reply 50 (Some [five_star])]
       [error_reply 50 500 ''Internal Server Error'']"

definition five_star_offer :: hotelOffers where
  "five_star_offer =
     \<lparr>offers_hotel = five_star, available = True,
      offers = [\<lparr>offer_id = ''OFF-HLPAR001-1712000000270'',
                 offer_checkInDate = ''2025-04-01'',
                 offer_checkOutDate = ''2025-04-05'',
                 room_type = ''SUITE'', room_category = ''SUITE'',
                 room_beds = 1, room_bedType = ''KING'',
                 room_description = ''Beautiful suite with luxury amenities.'',
                 price_currency = ''USD'', price_base = 350,
                 price_total = 385 + 1 / 2 ^ 44,
                 price_taxes = [\<lparr>tax_amount = 35, tax_currency = ''USD'', tax_included = True\<rparr>],
                 offer_boardType = ''BREAKFAST_INCLUDED'',
                 cancellations = [\<lparr>deadline = 1743206400000, cancel_amount = 70,
                                   cancel_type = ''PARTIAL'', cancel_description = None\<rparr>],
                 policy_checkIn = ''15:00'', policy_checkOut = ''11:00''\<rparr>]\<rparr>"

definition world_offers_down_failed :: world where
  \<comment> \<open>\<open>world_offers_down\<close> after the failed search\<close>
  "world_offers_down_failed =
     world_offers_down\<lparr>clock := 1712000000220,
       hotel_replies := [ok_reply 50 (Some [five_star])], offers_replies := [],
       requests := [ApiRequest ''v1/reference-data/locations/hotels/by-city'' ''GET''
                      (Some [(''cityCode'', ''PAR'')]) ''tok1'' None,
                    ApiRequest ''v3/shopping/hotel-offers'' ''GET''
                      (Some [(''hotelIds'', ''HLPAR001''), (''checkInDate'', ''2025-04-01''),
                             (''checkOutDate'', ''2025-04-05''), (''adults'', ''2''),
                             (''roomQuantity'', ''1''), (''currency'', ''USD''),
                             (''paymentPolicy'', ''NONE'')]) ''tok1'' None]\<rparr>"

definition world_offers_down_listed :: world where
  \<comment> \<open>\<open>world_offers_down_failed\<close> after the second listing\<close>
  "world_offers_down_listed =
     world_offers_down_failed\<lparr>clock := 1712000000270, hotel_replies := [],
       requests := requests world_offers_down_failed
         @ [ApiRequest ''v1/reference-data/locations/hotels/by-city'' ''GET''
              (Some [(''cityCode'', ''PAR'')]) ''tok1'' None]\<rparr>"

definition zero_star :: hotel where
  "zero_star = mk_hotel (Some ''HLPAR002'') (Some ''Petit Paris'') (Some 0)"

definition world_zero_star :: world where
  \<comment> \<open>as \<open>world_offers_down\<close>, with a hotel that the listing rates 0\<close>
  "world_zero_star =
     world_with [ok_reply 50 (Some [zero_star]), ok_reply 50 (Some [zero_star])]
       [error_reply 50 500 ''Internal Server Error'']"

definition zero_star_offer :: hotelOffers where
  "zero_star_offer =
     \<lparr>offers_hotel = zero_star, available = True,
      offers = [\<lparr>offer_id = ''OFF-HLPAR002-1712000000270'',
                 offer_checkInDate = ''2025-04-01'',
                 offer_checkOutDate = ''2025-04-05'',
                 room_type = ''STANDARD'', room_category = ''STANDARD'',
                 room_beds = 1, room_bedType = ''KING'',
                 room_description = ''Beautiful room with standard amenities.'',
                 price_currency = ''USD'', price_base = 300,
                 price_total = 330,
                 price_taxes = [\<lparr>tax_amount = 30, tax_currency = ''USD'', tax_included = True\<rparr>],
                 offer_boardType = ''BREAKFAST_INCLUDED'',
                 cancellations = [\<lparr>deadline = 1743206400000, cancel_amount = 60,
                                   cancel_type = ''PARTIAL'', cancel_description = None\<rparr>],
                 policy_checkIn = ''15:00'', policy_checkOut = ''11:00''\<rparr>]\<rparr>"

definition example_booking :: bookingParams where
  "example_booking =
     \<lparr>offerId = ''XYZ123'',
      guests = [\<lparr>title = ''MR'', firstName = ''John'', lastName = ''Doe'',
                 phone = ''+1234567890'', email = ''john.doe@example.com''\<rparr>],
      payments = [\<lparr>payment_method = ''CREDIT_CARD'',
                   payment_card = Some \<lparr>vendorCode = ''VI'',
                                         cardNumber = ''4111111111111111'',
                                         expiryDate = ''2025-12''\<rparr>\<rparr>]\<rparr>"

definition world_booking :: "json reply list \<Rightarrow> world" where
  \<comment> \<open>a world with a valid token in the cache and the given answers of the booking endpoint\<close>
  "world_booking bs = (world_with [] [])\<lparr>booking_replies := bs\<rparr>"

section \<open>The token cache\<close>

lemma getAccessToken_cached:
  "accessToken w = Some t \<Longrightarrow> t \<noteq> [] \<Longrightarrow> clock w < tokenExpiry w \<Longrightarrow> getAccessToken w = (Inr t, w)"
  by (simp add: getAccessToken_def)

lemma requestNewToken_Inr:
  "requestNewToken now w = (Inr t, w1) \<Longrightarrow>
     \<exists>dt r g rest. token_replies w = (dt, Some r) # rest \<and> ok r \<and> body_json r = Some g \<and>
        t = access_token g \<and> accessToken w1 = Some t \<and>
        tokenExpiry w1 = now + expires_in g * 1000 - 60000"
  by (auto simp: requestNewToken_def fetch_token_def send_def split: list.splits option.splits if_splits prod.splits)

lemma requestNewToken_Inl:
  "requestNewToken now w = (Inl e, w1) \<Longrightarrow>
     accessToken w1 = accessToken w \<and> tokenExpiry w1 = tokenExpiry w"
  by (auto simp: requestNewToken_def fetch_token_def send_def split: list.splits option.splits if_splits prod.splits)

lemma getAccessToken_Inr_stored:
  "getAccessToken w = (Inr t, w1) \<Longrightarrow> accessToken w1 = Some t"
  by (auto simp: getAccessToken_def Let_def split: option.splits if_splits dest: requestNewToken_Inr)

lemma getAccessToken_uncached:
  "\<not> token_cached w \<Longrightarrow> getAccessToken w = requestNewToken (clock w) w"
  by (auto simp: getAccessToken_def token_cached_def truthy_def Let_def split: option.splits)

lemma requestNewToken_fails:
  "exchange_fails w \<Longrightarrow> \<exists>e w1. requestNewToken now w = (Inl e, w1)"
  by (auto simp: exchange_fails_def requestNewToken_def fetch_token_def split: list.splits option.splits if_splits prod.splits)

lemma getAccessToken_again:
  assumes "getAccessToken w = (Inr t, w1)" and "t \<noteq> []" and "clock w1 + d < tokenExpiry w1"
  shows "getAccessToken (w1\<lparr>clock := clock w1 + d\<rparr>) = (Inr t, w1\<lparr>clock := clock w1 + d\<rparr>)"
proof -
  have "accessToken w1 = Some t"
    using assms(1) by (rule getAccessToken_Inr_stored)
  with assms(2,3) show ?thesis
    by (intro getAccessToken_cached) simp_all
qed

lemma getAccessToken_renewal:
  assumes "\<not> token_cached w" and "getAccessToken w = (Inr t, w1)"
  shows "\<exists>dt r g rest. token_replies w = (dt, Some r) # rest \<and> body_json r = Some g \<and>
           t = access_token g \<and> tokenExpiry w1 = clock w + expires_in g * 1000 - 60000"
proof -
  have "requestNewToken (clock w) w = (Inr t, w1)"
    using assms by (simp add: getAccessToken_uncached)
  from requestNewToken_Inr [OF this] show ?thesis
    by blast
qed

lemma getAccessToken_Inl_state:
  "getAccessToken w = (Inl e, w1) \<Longrightarrow>
     accessToken w1 = accessToken w \<and> tokenExpiry w1 = tokenExpiry w"
  by (auto simp: getAccessToken_def Let_def split: option.splits if_splits
           dest: requestNewToken_Inl)

lemma getAccessToken_fails:
  assumes "\<not> token_cached w" and "exchange_fails w"
  shows "\<exists>e w1. getAccessToken w = (Inl e, w1) \<and>
           accessToken w1 = accessToken w \<and> tokenExpiry w1 = tokenExpiry w"
proof -
  obtain e w1 where r: "requestNewToken (clock w) w = (Inl e, w1)"
    using requestNewToken_fails [OF assms(2)] by blast
  then have "getAccessToken w = (Inl e, w1)"
    using assms(1) by (simp add: getAccessToken_uncached)
  then show ?thesis
    using getAccessToken_Inl_state by blast
qed

text \<open>
  C2. While a token is cached and its stored expiry lies strictly after the clock,
  \<^verbatim>\<open>getAccessToken\<close> returns that token and leaves the world as it is: nothing is sent,
  no answer of the token endpoint is consumed, the cache is not written. Hence a call that
  returned a token is followed, any \<open>d\<close> milliseconds later but before the stored expiry, by
  a call that returns the same token. The stored expiry of a renewal is the clock at the
  start of the call plus the advertised lifetime less 60 seconds.
\<close>

theorem token_reused_before_expiry:
  "(accessToken w = Some t \<and> t \<noteq> [] \<and> clock w < tokenExpiry w \<longrightarrow>
      getAccessToken w = (Inr t, w))
   \<and> (getAccessToken w = (Inr t, w1) \<and> t \<noteq> [] \<and> clock w1 + d < tokenExpiry w1 \<longrightarrow>
        getAccessToken (w1\<lparr>clock := clock w1 + d\<rparr>) = (Inr t, w1\<lparr>clock := clock w1 + d\<rparr>))
   \<and> (\<not> token_cached w \<and> getAccessToken w = (Inr t, w1) \<longrightarrow>
        (\<exists>dt r g rest. token_replies w = (dt, Some r) # rest \<and> body_json r = Some g \<and>
           t = access_token g \<and> tokenExpiry w1 = clock w + expires_in g * 1000 - 60000))"
  using getAccessToken_cached [of w t] getAccessToken_again [of w t w1 d]
    getAccessToken_renewal [of w t w1]
  by blast

lemma example_renewal: "getAccessToken example_world = (Inr ''tok1'', example_world_renewed)"
  by (simp add: getAccessToken_def requestNewToken_def fetch_token_def send_def ok_def
        example_world_def example_world_renewed_def ok_reply_def)

theorem token_reused_before_expiry_witness:
  "\<not> token_cached example_world
   \<and> getAccessToken example_world = (Inr ''tok1'', example_world_renewed)
   \<and> tokenExpiry example_world_renewed = 1712000000000 + 1799 * 1000 - 60000
   \<and> clock example_world_renewed + 1000 < tokenExpiry example_world_renewed
   \<and> getAccessToken (example_world_renewed\<lparr>clock := clock example_world_renewed + 1000\<rparr>)
       = (Inr ''tok1'', example_world_renewed\<lparr>clock := clock example_world_renewed + 1000\<rparr>)
   \<and> getAccessToken example_world_renewed = (Inr ''tok1'', example_world_renewed)"
proof -
  have a: "\<not> token_cached example_world"
    by (simp add: token_cached_def truthy_def example_world_def)
  have b: "accessToken example_world_renewed = Some ''tok1'' \<and> ''tok1'' \<noteq> []
           \<and> clock example_world_renewed < tokenExpiry example_world_renewed"
    by (simp add: example_world_renewed_def)
  have c: "clock example_world_renewed + 1000 < tokenExpiry example_world_renewed"
    by (simp add: example_world_renewed_def)
  show ?thesis
    using a b c example_renewal
      token_reused_before_expiry [of example_world "''tok1''" example_world_renewed 1000]
      token_reused_before_expiry [of example_world_renewed "''tok1''" example_world_renewed 1000]
    by (simp add: example_world_renewed_def)
qed

text \<open>
  C9. A call of \<^verbatim>\<open>getAccessToken\<close> that throws leaves \<^verbatim>\<open>accessToken\<close> and
  \<^verbatim>\<open>tokenExpiry\<close> as they were; and when no valid token is cached and the exchange of
  credentials fails, the call does throw.
\<close>

theorem failed_exchange_keeps_token:
  "(getAccessToken w = (Inl e, w1) \<longrightarrow>
      accessToken w1 = accessToken w \<and> tokenExpiry w1 = tokenExpiry w)
   \<and> (\<not> token_cached w \<and> exchange_fails w \<longrightarrow>
        (\<exists>e' w'. getAccessToken w = (Inl e', w') \<and>
           accessToken w' = accessToken w \<and> tokenExpiry w' = tokenExpiry w))"
  using getAccessToken_Inl_state [of w e w1] getAccessToken_fails [of w]
  by blast


theorem failed_exchange_keeps_token_witness:
  "\<not> token_cached example_world_down \<and> exchange_fails example_world_down
   \<and> (\<exists>w'. getAccessToken example_world_down = (Inl (TokenRequestFailed 401 ''Unauthorized''), w')
          \<and> accessToken w' = Some ''old'' \<and> tokenExpiry w' = 1711999999000)"
proof -
  have a: "\<not> token_cached example_world_down \<and> exchange_fails example_world_down"
    by (simp add: token_cached_def exchange_fails_def example_world_down_def error_reply_def ok_def)
  have b: "fst (getAccessToken example_world_down) = Inl (TokenRequestFailed 401 ''Unauthorized'')"
    by (simp add: getAccessToken_def requestNewToken_def fetch_token_def send_def ok_def
          example_world_down_def error_reply_def)
  obtain w' where c: "getAccessToken example_world_down = (Inl (TokenRequestFailed 401 ''Unauthorized''), w')"
    using b by (cases "getAccessToken example_world_down") auto
  have "accessToken w' = accessToken example_world_down \<and> tokenExpiry w' = tokenExpiry example_world_down"
    using c failed_exchange_keeps_token [of example_world_down "TokenRequestFailed 401 ''Unauthorized''" w']
    by blast
  with a c show ?thesis
    by (simp add: example_world_down_def)
qed

section \<open>Rounding to the nearest double\<close>

lemma ilog2_le:
  assumes "0 < x"
  shows "2 powi ilog2 x \<le> x"
proof -
  obtain n d where q: "quotient_of x = (n, d)"
    by (cases "quotient_of x")
  then have d: "0 < d" and x: "x = of_int n / of_int d"
    by (simp_all add: quotient_of_denom_pos quotient_of_div)
  have n: "0 < n"
    using assms d x by (simp add: zero_less_divide_iff)
  define e where "e = bitlen n - bitlen d"
  show ?thesis
  proof (cases "2 powi e \<le> x")
    case True
    then show ?thesis
      by (simp add: ilog2_def q e_def)
  next
    case False
    have bn: "1 \<le> bitlen n" and bd: "0 \<le> bitlen d"
      using n by (simp_all add: bitlen_alt_def)
    have "(2::int) ^ nat (bitlen n - 1) \<le> n"
      using bitlen_bounds [OF n] by simp
    then have "(of_int ((2::int) ^ nat (bitlen n - 1)) :: rat) \<le> of_int n"
      by (simp only: of_int_le_iff)
    then have ln: "(2::rat) powi (bitlen n - 1) \<le> of_int n"
      using bn by (simp add: power_int_def)
    have "d < (2::int) ^ nat (bitlen d)"
      using bitlen_bounds [OF d] by simp
    then have "(of_int d :: rat) < of_int ((2::int) ^ nat (bitlen d))"
      by (simp only: of_int_less_iff)
    then have ud: "(of_int d :: rat) \<le> 2 powi (bitlen d)"
      using bd by (simp add: power_int_def)
    have "e - 1 = (bitlen n - 1) - bitlen d"
      by (simp add: e_def)
    then have "(2::rat) powi (e - 1) = 2 powi (bitlen n - 1) / 2 powi (bitlen d)"
      by (simp only: power_int_diff [of "2::rat" "bitlen n - 1" "bitlen d", simplified])
    also have "\<dots> \<le> of_int n / 2 powi (bitlen d)"
      using ln by (simp add: divide_right_mono)
    also have "\<dots> \<le> of_int n / of_int d"
      using ud d n by (simp add: frac_le)
    finally have "(2::rat) powi (e - 1) \<le> x"
      by (simp add: x)
    with False show ?thesis
      by (simp add: ilog2_def q e_def)
  qed
qed

lemma round_half_even_err: "\<bar>of_int (round_half_even m) - m\<bar> \<le> 1 / 2"
proof -
  have "of_int \<lfloor>m\<rfloor> \<le> m" "m < of_int \<lfloor>m\<rfloor> + 1"
    by linarith+
  then show ?thesis
    by (auto simp: round_half_even_def Let_def)
qed

lemma round_half_even_int: "round_half_even (of_int n) = n"
  by (simp add: round_half_even_def)

lemma double_of_err: "\<bar>double_of x - x\<bar> \<le> \<bar>x\<bar> / 2 ^ 53"
proof (cases "x = 0")
  case True
  then show ?thesis by (simp add: double_of_def)
next
  case False
  define a where "a = \<bar>x\<bar>"
  define u :: rat where "u = 2 powi (ilog2 a - 52)"
  define R where "R = round_half_even (a / u)"
  have a: "0 < a" using False by (simp add: a_def)
  have u: "0 < u" by (simp add: u_def)
  have "u * 2 ^ 52 = 2 powi (ilog2 a)"
    by (simp add: u_def power_int_diff)
  also have "\<dots> \<le> a"
    using a by (rule ilog2_le)
  finally have ua: "u \<le> a / 2 ^ 52"
    by (simp add: pos_le_divide_eq)
  have d: "double_of x = sgn x * of_int R * u"
    using False by (simp add: double_of_def Let_def a_def u_def R_def)
  have "x = sgn x * a"
    by (simp add: a_def mult_sgn_abs)
  then have "double_of x - x = sgn x * (of_int R * u - a)"
    using d by (simp add: algebra_simps)
  then have "\<bar>double_of x - x\<bar> = \<bar>of_int R * u - a\<bar>"
    using False by (simp add: abs_mult abs_sgn_eq)
  also have "of_int R * u - a = u * (of_int R - a / u)"
    using u by (simp add: algebra_simps)
  also have "\<bar>u * (of_int R - a / u)\<bar> = u * \<bar>of_int R - a / u\<bar>"
    using u by (simp add: abs_mult)
  also have "\<dots> \<le> u * (1 / 2)"
    using u round_half_even_err [of "a / u"] by (simp add: R_def)
  also have "\<dots> \<le> (a / 2 ^ 52) * (1 / 2)"
    using ua by simp
  also have "\<dots> = \<bar>x\<bar> / 2 ^ 53"
    by (simp add: a_def)
  finally show ?thesis .
qed

lemma double_of_int:
  assumes "\<bar>n\<bar> \<le> 2 ^ 53"
  shows "double_of (of_int n) = of_int n"
proof (cases "n = 0")
  case True
  then show ?thesis by (simp add: double_of_def)
next
  case False
  define a :: rat where "a = \<bar>of_int n\<bar>"
  define e where "e = ilog2 a"
  define u :: rat where "u = 2 powi (e - 52)"
  have a: "0 < a" using False by (simp add: a_def)
  have a53: "a \<le> 2 ^ 53"
  proof -
    have "(of_int \<bar>n\<bar> :: rat) \<le> of_int (2 ^ 53)"
      using assms by (simp only: of_int_le_iff)
    then show ?thesis by (simp add: a_def)
  qed
  have le: "2 powi e \<le> a"
    unfolding e_def using a by (rule ilog2_le)
  then have "(2::rat) powi e \<le> 2 powi 53"
    using a53 by simp
  then have e53: "e \<le> 53"
    by (rule power_int_le_imp_le_exp [rotated]) simp_all
  have u: "0 < u" by (simp add: u_def)
  have "\<exists>m::int. a / u = of_int m"
  proof (cases "e \<le> 52")
    case True
    have "e - 52 = - (52 - e)"
      by simp
    then have "u = inverse (2 powi (52 - e))"
      unfolding u_def by (simp only: power_int_minus)
    also have "(2::rat) powi (52 - e) = 2 ^ nat (52 - e)"
      using True by (simp add: power_int_def)
    finally have "a / u = of_int \<bar>n\<bar> * 2 ^ nat (52 - e)"
      by (simp add: a_def divide_inverse)
    then have "a / u = of_int (\<bar>n\<bar> * 2 ^ nat (52 - e))"
      by simp
    then show ?thesis ..
  next
    case False
    with e53 have e: "e = 53" by simp
    with le a53 have "a = 2 ^ 53" by simp
    then have "a / u = of_int (2 ^ 52)"
      by (simp add: u_def e)
    then show ?thesis ..
  qed
  then obtain m :: int where m: "a / u = of_int m" ..
  have "double_of (of_int n) = sgn (of_int n) * of_int (round_half_even (a / u)) * u"
    using False by (simp add: double_of_def Let_def a_def u_def e_def)
  also have "\<dots> = sgn (of_int n) * (a / u) * u"
    by (simp add: m round_half_even_int)
  also have "\<dots> = sgn (of_int n) * a"
    using u by simp
  also have "\<dots> = of_int n"
    by (simp add: a_def mult_sgn_abs)
  finally show ?thesis .
qed

lemma basePrice_int:
  assumes "\<bar>k\<bar> \<le> 1000000000"
  shows "js_plus 100 (js_times (of_int k) 50) = of_int (100 + k * 50)"
proof -
  have "js_times (of_int k) 50 = double_of (of_int (k * 50))"
    by (simp add: js_times_def)
  also have "\<dots> = of_int (k * 50)"
    using assms by (intro double_of_int) (simp add: abs_mult)
  finally have "js_plus 100 (js_times (of_int k) 50) = double_of (of_int (100 + k * 50))"
    by (simp add: js_plus_def)
  also have "\<dots> = of_int (100 + k * 50)"
  proof (rule double_of_int)
    have "\<bar>100 + k * 50\<bar> \<le> 50000000100"
      using assms by linarith
    also have "\<dots> \<le> 2 ^ 53"
      by simp
    finally show "\<bar>100 + k * 50\<bar> \<le> 2 ^ 53" .
  qed
  finally show ?thesis .
qed

lemma basePrice_err:
  assumes "\<bar>r\<bar> \<le> 1000000000"
  shows "\<bar>js_plus 100 (js_times r 50) - (100 + r * 50)\<bar> \<le> 1 / 2 ^ 15"
proof -
  define p where "p = js_times r 50"
  have "\<bar>r * 50\<bar> \<le> 50000000000"
    using assms by (simp add: abs_mult)
  then have "\<bar>r * 50\<bar> / 2 ^ 53 \<le> 50000000000 / 2 ^ 53"
    by (simp add: divide_right_mono)
  then have p: "\<bar>p - r * 50\<bar> \<le> 50000000000 / 2 ^ 53"
    using double_of_err [of "r * 50"] by (simp add: p_def js_times_def)
  have "\<bar>100 + p\<bar> \<le> 100 + \<bar>r * 50\<bar> + \<bar>p - r * 50\<bar>"
    by linarith
  also have "\<dots> \<le> 100 + 50000000000 + 50000000000 / 2 ^ 53"
    using p \<open>\<bar>r * 50\<bar> \<le> 50000000000\<close> by linarith
  also have "\<dots> \<le> 2 ^ 37"
    by simp
  finally have "\<bar>100 + p\<bar> / 2 ^ 53 \<le> 2 ^ 37 / 2 ^ 53"
    by (simp add: divide_right_mono)
  then have s: "\<bar>js_plus 100 p - (100 + p)\<bar> \<le> 2 ^ 37 / 2 ^ 53"
    using double_of_err [of "100 + p"] by (simp add: js_plus_def)
  have "\<bar>js_plus 100 p - (100 + r * 50)\<bar> \<le> \<bar>js_plus 100 p - (100 + p)\<bar> + \<bar>p - r * 50\<bar>"
    by linarith
  also have "\<dots> \<le> 2 ^ 37 / 2 ^ 53 + 50000000000 / 2 ^ 53"
    using s p by linarith
  also have "\<dots> \<le> 1 / 2 ^ 15"
    by simp
  finally show ?thesis
    by (simp add: p_def)
qed

lemma basePrice_bound:
  assumes "\<bar>r\<bar> \<le> 1000000000"
  shows "\<bar>js_plus 100 (js_times r 50)\<bar> \<le> 2 ^ 37"
proof -
  have "\<bar>r * 50\<bar> \<le> 50000000000"
    using assms by (simp add: abs_mult)
  then have "\<bar>100 + r * 50\<bar> \<le> 50000000100"
    by linarith
  then have "\<bar>js_plus 100 (js_times r 50)\<bar> \<le> 50000000100 + 1 / 2 ^ 15"
    using basePrice_err [OF assms] by linarith
  also have "\<dots> \<le> 2 ^ 37"
    by simp
  finally show ?thesis .
qed

lemma times_literal_err:
  assumes b: "\<bar>b\<bar> \<le> 2 ^ 37" and q: "\<bar>q\<bar> \<le> 2"
  shows "\<bar>js_times b (literal q) - b * q\<bar> \<le> 5 / 2 ^ 16"
proof -
  define l where "l = literal q"
  have "\<bar>q\<bar> / 2 ^ 53 \<le> 2 / 2 ^ 53"
    using q by (simp add: divide_right_mono)
  then have lq: "\<bar>l - q\<bar> \<le> 2 / 2 ^ 53"
    using double_of_err [of q] by (simp add: l_def literal_def)
  have "\<bar>l\<bar> \<le> \<bar>q\<bar> + \<bar>l - q\<bar>"
    by linarith
  also have "\<dots> \<le> 3"
    using q lq by simp
  finally have l3: "\<bar>l\<bar> \<le> 3" .
  have "\<bar>b * l\<bar> = \<bar>b\<bar> * \<bar>l\<bar>"
    by (rule abs_mult)
  also have "\<dots> \<le> 2 ^ 37 * 3"
    using b l3 by (intro mult_mono) simp_all
  finally have "\<bar>b * l\<bar> / 2 ^ 53 \<le> (2 ^ 37 * 3) / 2 ^ 53"
    by (simp add: divide_right_mono)
  then have r: "\<bar>js_times b l - b * l\<bar> \<le> (2 ^ 37 * 3) / 2 ^ 53"
    using double_of_err [of "b * l"] by (simp add: js_times_def)
  have "\<bar>b * l - b * q\<bar> = \<bar>b\<bar> * \<bar>l - q\<bar>"
    by (simp add: abs_mult flip: right_diff_distrib)
  also have "\<dots> \<le> 2 ^ 37 * (2 / 2 ^ 53)"
    using b lq by (intro mult_mono) simp_all
  finally have d: "\<bar>b * l - b * q\<bar> \<le> 2 ^ 37 * (2 / 2 ^ 53)" .
  have "\<bar>js_times b l - b * q\<bar> \<le> \<bar>js_times b l - b * l\<bar> + \<bar>b * l - b * q\<bar>"
    by linarith
  also have "\<dots> \<le> (2 ^ 37 * 3) / 2 ^ 53 + 2 ^ 37 * (2 / 2 ^ 53)"
    using r d by linarith
  also have "\<dots> = 5 / 2 ^ 16"
    by simp
  finally show ?thesis
    by (simp add: l_def)
qed

lemma price_350: "js_plus 100 (js_times 5 50) = 350"
  using basePrice_int [of 5] by simp

lemma total_385: "js_times 350 (literal (11 / 10)) = 385 + 1 / 2 ^ 44"
  unfolding js_times_def literal_def by code_simp

lemma tax_35: "js_times 350 (literal (1 / 10)) = 35"
  unfolding js_times_def literal_def by code_simp

lemma fee_70: "js_times 350 (literal (1 / 5)) = 70"
  unfolding js_times_def literal_def by code_simp

section \<open>From the listing to the query for offers\<close>

lemma requestNewToken_error: "requestNewToken now w = (Inl e, w1) \<Longrightarrow> gateway_error e"
  by (auto simp: requestNewToken_def gateway_error_def split: prod.splits option.splits if_splits)

lemma getAccessToken_error: "getAccessToken w = (Inl e, w1) \<Longrightarrow> gateway_error e"
  by (auto simp: getAccessToken_def Let_def split: option.splits if_splits
           dest: requestNewToken_error)

lemma makeAmadeusRequest_error:
  "makeAmadeusRequest fetch endpoint m q b w = (Inl e, w1) \<Longrightarrow> gateway_error e"
  by (auto simp: makeAmadeusRequest_def gateway_error_def
           split: prod.splits sum.splits option.splits if_splits
           dest: getAccessToken_error)

lemma hotelList_error: "hotelList p w = (Inl e, w1) \<Longrightarrow> gateway_error e"
  unfolding hotelList_def by (rule makeAmadeusRequest_error)

lemma makeOffersRequest_error: "makeOffersRequest p ids w = (Inl e, w1) \<Longrightarrow> gateway_error e"
  unfolding makeOffersRequest_def by (rule makeAmadeusRequest_error)



lemma length_hotelIds: "length (hotelIds data n) \<le> 5"
proof -
  have "length (hotelIds data n) \<le> length (hotelsToCheck data n)"
    unfolding hotelIds_def by (simp add: le_trans [OF length_filter_le])
  also have "\<dots> \<le> 5"
    by (simp add: hotelsToCheck_def)
  finally show ?thesis .
qed

lemma impl_NoHotelsFound_iff:
  "fst (hotelSearchImplementation params w) = Inl (NoHotelsFound c) \<longleftrightarrow>
     c = cityCode params \<and>
     (\<exists>l w1. hotelList (byCity (cityCode params)) w = (Inr l, w1) \<and> zero_hotels l)"
proof -
  obtain r w1 where h: "hotelList (byCity (cityCode params)) w = (r, w1)"
    by (cases "hotelList (byCity (cityCode params)) w")
  show ?thesis
  proof (cases r)
    case (Inl e)
    with h have "gateway_error e" by (auto dest: hotelList_error)
    with h Inl show ?thesis
      by (auto simp: hotelSearchImplementation_def gateway_error_def)
  next
    case (Inr l)
    show ?thesis
    proof (cases "zero_hotels l")
      case True
      with h Inr show ?thesis
        by (auto simp: hotelSearchImplementation_def zero_hotels_def split: option.splits)
    next
      case False
      then obtain data where l: "l = Some data" "data \<noteq> []"
        by (auto simp: zero_hotels_def split: option.splits)
      have "fst (makeOffersRequest params ids w1) \<noteq> Inl (NoHotelsFound c)" for ids
      proof
        assume a: "fst (makeOffersRequest params ids w1) = Inl (NoHotelsFound c)"
        then obtain w2 where "makeOffersRequest params ids w1 = (Inl (NoHotelsFound c), w2)"
          by (cases "makeOffersRequest params ids w1") auto
        then have "gateway_error (NoHotelsFound c)" by (rule makeOffersRequest_error)
        then show False by (simp add: gateway_error_def)
      qed
      with h Inr l False show ?thesis
        by (auto simp: hotelSearchImplementation_def)
    qed
  qed
qed

lemma requestNewToken_requests:
  "requestNewToken now w = (r, w1) \<Longrightarrow> requests w1 = requests w @ [TokenRequest]"
  by (auto simp: requestNewToken_def fetch_token_def send_def
           split: list.splits option.splits if_splits prod.splits)

lemma getAccessToken_requests:
  "getAccessToken w = (r, w1) \<Longrightarrow>
     \<exists>xs. requests w1 = requests w @ xs \<and> set xs \<subseteq> {TokenRequest}"
  by (auto simp: getAccessToken_def Let_def split: option.splits if_splits
           dest: requestNewToken_requests)

lemma fetch_hotels_requests: "fetch_hotels rq w = (r, w1) \<Longrightarrow> requests w1 = requests w @ [rq]"
  by (auto simp: fetch_hotels_def send_def split: list.splits)

lemma fetch_offers_requests: "fetch_offers rq w = (r, w1) \<Longrightarrow> requests w1 = requests w @ [rq]"
  by (auto simp: fetch_offers_def send_def split: list.splits)

lemma makeAmadeusRequest_requests:
  assumes f: "\<And>rq w r w1. fetch rq w = (r, w1) \<Longrightarrow> requests w1 = requests w @ [rq]"
    and run: "makeAmadeusRequest fetch endpoint m q b w = (r, w')"
  shows "\<exists>xs. requests w' = requests w @ xs \<and>
           (\<forall>x \<in> set xs. x = TokenRequest \<or> (\<exists>t. x = ApiRequest endpoint m q t b))"
proof -
  obtain r1 w1 where t: "getAccessToken w = (r1, w1)"
    by (cases "getAccessToken w")
  then obtain xs where xs: "requests w1 = requests w @ xs" "set xs \<subseteq> {TokenRequest}"
    using getAccessToken_requests by blast
  show ?thesis
  proof (cases r1)
    case (Inl e)
    with t run have "w' = w1"
      by (simp add: makeAmadeusRequest_def)
    with xs show ?thesis by auto
  next
    case (Inr token)
    obtain r2 w2 where s: "fetch (ApiRequest endpoint m q token b) w1 = (r2, w2)"
      by (cases "fetch (ApiRequest endpoint m q token b) w1")
    then have "requests w2 = requests w1 @ [ApiRequest endpoint m q token b]"
      by (rule f)
    moreover have "w' = w2"
      using t Inr s run
      by (auto simp: makeAmadeusRequest_def split: option.splits if_splits)
    ultimately have "requests w' = requests w @ (xs @ [ApiRequest endpoint m q token b])"
      using xs by simp
    moreover have "\<forall>x \<in> set (xs @ [ApiRequest endpoint m q token b]).
        x = TokenRequest \<or> (\<exists>t. x = ApiRequest endpoint m q t b)"
      using xs by auto
    ultimately show ?thesis by blast
  qed
qed

lemma hotelList_requests:
  assumes "hotelList p w = (r, w')"
  shows "\<exists>xs. requests w' = requests w @ xs \<and>
           (\<forall>m q t b. ApiRequest offers_endpoint m q t b \<notin> set xs)"
proof -
  have "\<exists>xs. requests w' = requests w @ xs \<and>
      (\<forall>x \<in> set xs. x = TokenRequest \<or>
         (\<exists>t. x = ApiRequest ''v1/reference-data/locations/hotels/by-city'' ''GET''
                   (Some (hotelListQuery p)) t None))"
    by (rule makeAmadeusRequest_requests [OF _ assms [unfolded hotelList_def]])
       (erule fetch_hotels_requests)
  then obtain xs where xs: "requests w' = requests w @ xs"
    "\<forall>x \<in> set xs. x = TokenRequest \<or>
       (\<exists>t. x = ApiRequest ''v1/reference-data/locations/hotels/by-city'' ''GET''
                 (Some (hotelListQuery p)) t None)"
    by blast
  have "ApiRequest offers_endpoint m q t b \<notin> set xs" for m q t b
  proof
    assume "ApiRequest offers_endpoint m q t b \<in> set xs"
    with xs(2) show False
      by (auto simp: offers_endpoint_def)
  qed
  with xs(1) show ?thesis by blast
qed

lemma makeOffersRequest_requests:
  assumes "makeOffersRequest params ids w = (r, w')"
  shows "\<exists>xs. requests w' = requests w @ xs \<and>
           (\<forall>m q t b. ApiRequest offers_endpoint m q t b \<in> set xs \<longrightarrow>
              q = Some (offersQuery params ids))"
proof -
  have "\<exists>xs. requests w' = requests w @ xs \<and>
      (\<forall>x \<in> set xs. x = TokenRequest \<or>
         (\<exists>t. x = ApiRequest ''v3/shopping/hotel-offers'' ''GET''
                   (Some (offersQuery params ids)) t None))"
    by (rule makeAmadeusRequest_requests [OF _ assms [unfolded makeOffersRequest_def]])
       (erule fetch_offers_requests)
  then obtain xs where xs: "requests w' = requests w @ xs"
    "\<forall>x \<in> set xs. x = TokenRequest \<or>
       (\<exists>t. x = ApiRequest ''v3/shopping/hotel-offers'' ''GET''
                 (Some (offersQuery params ids)) t None)"
    by blast
  have "q = Some (offersQuery params ids)"
    if "ApiRequest offers_endpoint m q t b \<in> set xs" for m q t b
    using xs(2) that by auto
  with xs(1) show ?thesis by blast
qed

lemma hotelSearchImplementation_requests:
  assumes "hotelSearchImplementation params w = (r, w')"
  shows "\<exists>xs. requests w' = requests w @ xs \<and>
           (\<forall>m q t b. ApiRequest offers_endpoint m q t b \<in> set xs \<longrightarrow>
              (\<exists>data w1. hotelList (byCity (cityCode params)) w = (Inr (Some data), w1) \<and>
                 q = Some (offersQuery params (hotelIds data (hotelName params)))))"
proof -
  obtain r1 w1 where h: "hotelList (byCity (cityCode params)) w = (r1, w1)"
    by (cases "hotelList (byCity (cityCode params)) w")
  from hotelList_requests [OF this]
  obtain xs where xs: "requests w1 = requests w @ xs"
    "\<forall>m q t b. ApiRequest offers_endpoint m q t b \<notin> set xs"
    by blast
  show ?thesis
  proof (cases "\<exists>data. r1 = Inr (Some data) \<and> data \<noteq> [] \<and> hotelIds data (hotelName params) \<noteq> []")
    case False
    with h assms have "w' = w1"
      by (auto simp: hotelSearchImplementation_def split: sum.splits option.splits if_splits)
    with xs show ?thesis by blast
  next
    case True
    then obtain data where d: "r1 = Inr (Some data)" "data \<noteq> []"
      "hotelIds data (hotelName params) \<noteq> []"
      by blast
    with h assms have "makeOffersRequest params (hotelIds data (hotelName params)) w1 = (r, w')"
      by (simp add: hotelSearchImplementation_def)
    from makeOffersRequest_requests [OF this]
    obtain ys where ys: "requests w' = requests w1 @ ys"
      "\<forall>m q t b. ApiRequest offers_endpoint m q t b \<in> set ys \<longrightarrow>
         q = Some (offersQuery params (hotelIds data (hotelName params)))"
      by blast
    have "requests w' = requests w @ (xs @ ys)"
      using xs(1) ys(1) by simp
    moreover have "\<forall>m q t b. ApiRequest offers_endpoint m q t b \<in> set (xs @ ys) \<longrightarrow>
        (\<exists>data w1. hotelList (byCity (cityCode params)) w = (Inr (Some data), w1) \<and>
           q = Some (offersQuery params (hotelIds data (hotelName params))))"
      using xs(2) ys(2) h d(1) by auto
    ultimately show ?thesis by blast
  qed
qed

lemma mockOffer_requests:
  "mockOffer parse ci co h w = (r, w1) \<Longrightarrow> requests w1 = requests w"
  by (auto simp: mockOffer_def random_below_10000_def Let_def
           split: if_splits list.splits sum.splits prod.splits)

lemma mockOffers_requests:
  "mockOffers parse ci co hs w = (r, w1) \<Longrightarrow> requests w1 = requests w"
proof (induction hs arbitrary: w r w1)
  case Nil
  then show ?case by simp
next
  case (Cons h hs)
  obtain r0 w0 where one: "mockOffer parse ci co h w = (r0, w0)"
    by (cases "mockOffer parse ci co h w")
  then have eq0: "requests w0 = requests w"
    by (rule mockOffer_requests)
  show ?case
  proof (cases r0)
    case (Inl e)
    with one Cons.prems eq0 show ?thesis by auto
  next
    case (Inr x)
    obtain r2 w2 where rest: "mockOffers parse ci co hs w0 = (r2, w2)"
      by (cases "mockOffers parse ci co hs w0")
    then have "requests w2 = requests w0"
      by (rule Cons.IH)
    moreover have "w1 = w2"
      using one Inr rest Cons.prems by (auto split: sum.splits)
    ultimately show ?thesis using eq0 by simp
  qed
qed

lemma getMockHotelOffers_requests:
  assumes "getMockHotelOffers parse c ci co w = (r, w')"
  shows "\<exists>xs. requests w' = requests w @ xs \<and>
           (\<forall>m q t b. ApiRequest offers_endpoint m q t b \<notin> set xs)"
proof -
  obtain r1 w1 where h: "hotelList (byCity c) w = (r1, w1)"
    by (cases "hotelList (byCity c) w")
  from hotelList_requests [OF this]
  obtain xs where xs: "requests w1 = requests w @ xs"
    "\<forall>m q t b. ApiRequest offers_endpoint m q t b \<notin> set xs"
    by blast
  have "requests w' = requests w1"
  proof (cases r1)
    case (Inl e)
    with h assms show ?thesis
      by (auto simp: getMockHotelOffers_def)
  next
    case (Inr l)
    obtain r2 w2 where m: "mockOffers parse ci co (case l of None \<Rightarrow> [] | Some hs \<Rightarrow> hs) w1 = (r2, w2)"
      by (cases "mockOffers parse ci co (case l of None \<Rightarrow> [] | Some hs \<Rightarrow> hs) w1")
    then have "requests w2 = requests w1"
      by (rule mockOffers_requests)
    moreover have "w' = w2"
      using h Inr m assms by (auto simp: getMockHotelOffers_def Let_def split: sum.splits)
    ultimately show ?thesis by simp
  qed
  with xs show ?thesis by auto
qed

lemma hotelSearch_requests:
  assumes "hotelSearch parse params w = (r, w')"
  shows "\<exists>xs. requests w' = requests w @ xs \<and>
           (\<forall>m q t b. ApiRequest offers_endpoint m q t b \<in> set xs \<longrightarrow>
              (\<exists>data w1. hotelList (byCity (cityCode params)) w = (Inr (Some data), w1) \<and>
                 q = Some (offersQuery params (hotelIds data (hotelName params)))))"
proof -
  obtain r1 w1 where i: "hotelSearchImplementation params w = (r1, w1)"
    by (cases "hotelSearchImplementation params w")
  from hotelSearchImplementation_requests [OF this]
  obtain xs where xs: "requests w1 = requests w @ xs"
    "\<forall>m q t b. ApiRequest offers_endpoint m q t b \<in> set xs \<longrightarrow>
       (\<exists>data w1. hotelList (byCity (cityCode params)) w = (Inr (Some data), w1) \<and>
          q = Some (offersQuery params (hotelIds data (hotelName params))))"
    by blast
  show ?thesis
  proof (cases r1)
    case (Inr j)
    with i assms have "w' = w1"
      by (simp add: hotelSearch_def)
    with xs show ?thesis by blast
  next
    case (Inl e)
    obtain r2 w2 where m: "getMockHotelOffers parse (cityCode params) (checkInDate params)
        (checkOutDate params) w1 = (r2, w2)"
      by (cases "getMockHotelOffers parse (cityCode params) (checkInDate params)
        (checkOutDate params) w1")
    from getMockHotelOffers_requests [OF this]
    obtain ys where ys: "requests w2 = requests w1 @ ys"
      "\<forall>m q t b. ApiRequest offers_endpoint m q t b \<notin> set ys"
      by blast
    have "w' = w2"
      using i Inl m assms by (auto simp: hotelSearch_def split: sum.splits)
    then have "requests w' = requests w @ (xs @ ys)"
      using xs(1) ys(1) by simp
    moreover have "\<forall>m q t b. ApiRequest offers_endpoint m q t b \<in> set (xs @ ys) \<longrightarrow>
        (\<exists>data w1. hotelList (byCity (cityCode params)) w = (Inr (Some data), w1) \<and>
           q = Some (offersQuery params (hotelIds data (hotelName params))))"
      using xs(2) ys(2) by auto
    ultimately show ?thesis by blast
  qed
qed

lemma card_hotelIds: "card (set (hotelIds data n)) \<le> 5"
  using card_length [of "hotelIds data n"] length_hotelIds [of data n] by linarith

text \<open>
  C4. At most five hotel identifiers are handed on, those of the first five hotels of the
  filtered listing that have one, in the order of the listing; they are the first
  parameter of the query for offers. Every request that \<^verbatim>\<open>hotelSearch\<close> sends to the
  endpoint of the offers carries the query built from these identifiers, so it names at
  most five distinct hotels.
\<close>

theorem offers_request_has_at_most_five_ids:
  "length (hotelIds data n) \<le> 5
   \<and> card (set (hotelIds data n)) \<le> 5
   \<and> hotelIds data n = map the (filter truthy (map hotelId (take 5 (filteredHotels data n))))
   \<and> offersQuery params ids ! 0 = (''hotelIds'', join '','' ids)
   \<and> (hotelSearch parse params w = (r, w') \<longrightarrow>
        (\<exists>sent. requests w' = requests w @ sent \<and>
           (\<forall>m q t b. ApiRequest offers_endpoint m q t b \<in> set sent \<longrightarrow>
              (\<exists>listed w1. hotelList (byCity (cityCode params)) w = (Inr (Some listed), w1) \<and>
                 q = Some (offersQuery params (hotelIds listed (hotelName params)))))))"
  using length_hotelIds [of data n] card_hotelIds [of data n]
    hotelSearch_requests [of parse params w r w']
  by (simp add: hotelIds_def hotelsToCheck_def offersQuery_def)

lemma hotelList_world_six:
  "hotelList (byCity ''PAR'') world_six =
     (Inr (Some six_hotels),
      world_six\<lparr>clock := 1712000000170, hotel_replies := [],
        requests := [ApiRequest ''v1/reference-data/locations/hotels/by-city'' ''GET''
                       (Some [(''cityCode'', ''PAR'')]) ''tok1'' None]\<rparr>)"
  by (simp add: hotelList_def makeAmadeusRequest_def getAccessToken_def fetch_hotels_def
        send_def ok_def world_six_def world_with_def ok_reply_def byCity_def hotelListQuery_def)

lemma hotelIds_six: "hotelIds six_hotels None = [''H2'', ''H3'', ''H4'', ''H5'']"
  by (simp add: hotelIds_def hotelsToCheck_def filteredHotels_def six_hotels_def mk_hotel_def
        truthy_def)

lemma hotelSearch_world_six:
  "hotelSearch parse example_query world_six =
     (Inr (Real (JObj [])),
      world_six\<lparr>clock := 1712000000240, hotel_replies := [], offers_replies := [],
        requests := [ApiRequest ''v1/reference-data/locations/hotels/by-city'' ''GET''
                       (Some [(''cityCode'', ''PAR'')]) ''tok1'' None,
                     ApiRequest ''v3/shopping/hotel-offers'' ''GET''
                       (Some [(''hotelIds'', ''H2,H3,H4,H5''), (''checkInDate'', ''2025-04-01''),
                              (''checkOutDate'', ''2025-04-05''), (''adults'', ''2''),
                              (''roomQuantity'', ''1''), (''currency'', ''USD''),
                              (''paymentPolicy'', ''NONE'')]) ''tok1'' None]\<rparr>)"
proof -
  have q: "cityCode example_query = ''PAR''" "hotelName example_query = None"
    by (simp_all add: example_query_def)
  have o: "offersQuery example_query [''H2'', ''H3'', ''H4'', ''H5''] =
      [(''hotelIds'', ''H2,H3,H4,H5''), (''checkInDate'', ''2025-04-01''),
       (''checkOutDate'', ''2025-04-05''), (''adults'', ''2''),
       (''roomQuantity'', ''1''), (''currency'', ''USD''), (''paymentPolicy'', ''NONE'')]"
    by (simp add: offersQuery_def example_query_def truthy_def toString_int_def digits.simps
          digit_char_def)
  have n: "length six_hotels = 6"
    by (simp add: six_hotels_def)
  have i: "hotelSearchImplementation example_query world_six =
      makeOffersRequest example_query [''H2'', ''H3'', ''H4'', ''H5'']
        (world_six\<lparr>clock := 1712000000170, hotel_replies := [],
           requests := [ApiRequest ''v1/reference-data/locations/hotels/by-city'' ''GET''
                          (Some [(''cityCode'', ''PAR'')]) ''tok1'' None]\<rparr>)"
    by (simp add: hotelSearchImplementation_def q hotelList_world_six hotelIds_six n)
  show ?thesis
    unfolding hotelSearch_def i
    by (simp add: makeOffersRequest_def o
          makeAmadeusRequest_def getAccessToken_def fetch_offers_def
          send_def ok_def world_six_def world_with_def ok_reply_def)
qed

theorem offers_request_has_at_most_five_ids_witness:
  "(\<forall>parse. hotelSearch parse example_query world_six = (Inr (Real (JObj [])), world_six_after))
   \<and> hotelIds six_hotels None = [''H2'', ''H3'', ''H4'', ''H5'']
   \<and> length (hotelIds six_hotels None) \<le> 5
   \<and> (\<exists>sent. requests world_six_after = requests world_six @ sent \<and>
         (\<forall>m q t b. ApiRequest offers_endpoint m q t b \<in> set sent \<longrightarrow>
            (\<exists>listed w1.
               hotelList (byCity (cityCode example_query)) world_six = (Inr (Some listed), w1) \<and>
               q = Some (offersQuery example_query (hotelIds listed (hotelName example_query))))))"
proof -
  have run: "hotelSearch parse example_query world_six = (Inr (Real (JObj [])), world_six_after)"
    for parse
    unfolding world_six_after_def by (rule hotelSearch_world_six)
  show ?thesis
    using run hotelIds_six
      offers_request_has_at_most_five_ids [of six_hotels None example_query "[]" "\<lambda>s. None"
        world_six "Inr (Real (JObj []))" world_six_after]
    by simp
qed




text \<open>
  C5. The search fails with \<open>NoHotelsFound\<close> exactly when the listing of the city was
  received and holds no hotel (no member \<^verbatim>\<open>data\<close>, or an empty one). The test comes before
  the name filter: with hotels in the listing the error is not raised, whatever the filter
  leaves.
\<close>

theorem no_hotels_found_iff_listing_empty:
  "(fst (hotelSearchImplementation params w) = Inl (NoHotelsFound c) \<longleftrightarrow>
      c = cityCode params \<and>
      (\<exists>l w1. hotelList (byCity (cityCode params)) w = (Inr l, w1) \<and> zero_hotels l))
   \<and> (hotelList (byCity (cityCode params)) w = (Inr (Some data), w1) \<and> data \<noteq> [] \<longrightarrow>
        fst (hotelSearchImplementation params w) \<noteq> Inl (NoHotelsFound c))"
proof -
  have "fst (hotelSearchImplementation params w) \<noteq> Inl (NoHotelsFound c)"
    if "hotelList (byCity (cityCode params)) w = (Inr (Some data), w1)" "data \<noteq> []"
    using that impl_NoHotelsFound_iff [of params w c] by (auto simp: zero_hotels_def)
  then show ?thesis
    using impl_NoHotelsFound_iff [of params w c] by blast
qed

lemma hotelList_world_empty_city:
  "hotelList (byCity ''NYC'') world_empty_city =
     (Inr (Some []),
      world_empty_city\<lparr>clock := 1712000000170, hotel_replies := [],
        requests := [ApiRequest ''v1/reference-data/locations/hotels/by-city'' ''GET''
                       (Some [(''cityCode'', ''NYC'')]) ''tok1'' None]\<rparr>)"
  by (simp add: hotelList_def makeAmadeusRequest_def getAccessToken_def fetch_hotels_def
        send_def ok_def world_empty_city_def world_with_def ok_reply_def byCity_def
        hotelListQuery_def)

theorem no_hotels_found_iff_listing_empty_witness:
  "zero_hotels (Some [])
   \<and> fst (hotelSearchImplementation (example_query\<lparr>cityCode := ''NYC''\<rparr>) world_empty_city)
       = Inl (NoHotelsFound ''NYC'')
   \<and> six_hotels \<noteq> []
   \<and> fst (hotelSearchImplementation (example_query\<lparr>hotelName := Some ''Zzz''\<rparr>) world_six)
       \<noteq> Inl (NoHotelsFound ''PAR'')"
proof -
  have z: "zero_hotels (Some [])"
    by (simp add: zero_hotels_def)
  have a: "fst (hotelSearchImplementation (example_query\<lparr>cityCode := ''NYC''\<rparr>) world_empty_city)
       = Inl (NoHotelsFound ''NYC'')"
    using z hotelList_world_empty_city
      no_hotels_found_iff_listing_empty [of "example_query\<lparr>cityCode := ''NYC''\<rparr>"
        world_empty_city "''NYC''"]
    by auto
  have s: "six_hotels \<noteq> []"
    by (simp add: six_hotels_def)
  have b: "fst (hotelSearchImplementation (example_query\<lparr>hotelName := Some ''Zzz''\<rparr>) world_six)
       \<noteq> Inl (NoHotelsFound ''PAR'')"
    using s hotelList_world_six
      no_hotels_found_iff_listing_empty [of "example_query\<lparr>hotelName := Some ''Zzz''\<rparr>"
        world_six "''PAR''" six_hotels]
    by (auto simp: example_query_def)
  show ?thesis
    using z a s b by simp
qed

lemma makeOffersRequest_sends:
  assumes "getAccessToken w = (Inr token, w2)"
  shows "\<exists>r w'. makeOffersRequest params ids w = (r, w') \<and>
           requests w' = requests w2 @
             [ApiRequest ''v3/shopping/hotel-offers'' ''GET'' (Some (offersQuery params ids))
                token None]"
proof -
  let ?rq = "ApiRequest ''v3/shopping/hotel-offers'' ''GET'' (Some (offersQuery params ids))
      token None"
  obtain r2 w3 where f: "fetch_offers ?rq w2 = (r2, w3)"
    by (cases "fetch_offers ?rq w2")
  then have "requests w3 = requests w2 @ [?rq]"
    by (rule fetch_offers_requests)
  moreover have "snd (makeOffersRequest params ids w) = w3"
    using assms f
    by (simp add: makeOffersRequest_def makeAmadeusRequest_def split: option.splits)
  ultimately show ?thesis
    by (cases "makeOffersRequest params ids w") auto
qed

text \<open>
  C10. The listing of the city is received and holds hotels. The identifiers are those of
  the first five filtered hotels that have one: the cut to five comes before the hotels
  without identifier are dropped. When there is such an identifier, the search goes on
  with the query for offers; with a token at hand, the request it sends to the endpoint of
  the offers is the last of the log and carries these identifiers, joined by commas, as
  its first parameter. So a hotel beyond the fifth is not asked for, even when fewer than
  five identifiers are sent. When none of the first five has an identifier, the search
  throws \<open>NoValidHotelIds\<close> without a request to the endpoint of the offers, though the
  listing is not empty, and \<^verbatim>\<open>hotelSearch\<close> answers with the fallback data.
\<close>

theorem cut_to_five_before_dropping_missing_ids:
  assumes "hotelList (byCity (cityCode params)) w = (Inr (Some data), w1)"
    and "data \<noteq> []"
    and "ids = map the (filter truthy (map hotelId
                 (take 5 (filteredHotels data (hotelName params)))))"
  shows "(ids \<noteq> [] \<longrightarrow>
            hotelSearchImplementation params w = makeOffersRequest params ids w1
            \<and> (\<forall>token w2. getAccessToken w1 = (Inr token, w2) \<longrightarrow>
                  (\<exists>r w'. hotelSearchImplementation params w = (r, w') \<and>
                     requests w' = requests w2 @
                       [ApiRequest offers_endpoint ''GET''
                          (Some ((''hotelIds'', join '','' ids) # tl (offersQuery params ids)))
                          token None])))
     \<and> (ids = [] \<longrightarrow>
            hotelSearchImplementation params w = (Inl NoValidHotelIds, w1)
            \<and> \<not> zero_hotels (Some data)
            \<and> hotelSearch parse params w =
                (case getMockHotelOffers parse (cityCode params) (checkInDate params)
                        (checkOutDate params) w1 of
                   (Inl e2, w2) \<Rightarrow> (Inl e2, w2)
                 | (Inr xs, w2) \<Rightarrow> (Inr (Mock xs), w2)))"
proof -
  have ids: "hotelIds data (hotelName params) = ids"
    by (simp add: assms(3) hotelIds_def hotelsToCheck_def)
  have q: "(''hotelIds'', join '','' ids) # tl (offersQuery params ids) = offersQuery params ids"
    by (simp add: offersQuery_def)
  have a: "hotelSearchImplementation params w = makeOffersRequest params ids w1"
    if "ids \<noteq> []"
    using that assms(1,2) by (simp add: hotelSearchImplementation_def ids)
  have b: "\<exists>r w'. hotelSearchImplementation params w = (r, w') \<and>
      requests w' = requests w2 @
        [ApiRequest offers_endpoint ''GET''
           (Some ((''hotelIds'', join '','' ids) # tl (offersQuery params ids))) token None]"
    if "ids \<noteq> []" and "getAccessToken w1 = (Inr token, w2)" for token w2
    unfolding a [OF that(1)] q offers_endpoint_def
    using that(2) by (rule makeOffersRequest_sends)
  have c: "hotelSearchImplementation params w = (Inl NoValidHotelIds, w1)" if "ids = []"
    using that assms(1,2) by (simp add: hotelSearchImplementation_def ids)
  have d: "hotelSearch parse params w =
      (case getMockHotelOffers parse (cityCode params) (checkInDate params)
              (checkOutDate params) w1 of
         (Inl e2, w2) \<Rightarrow> (Inl e2, w2)
       | (Inr xs, w2) \<Rightarrow> (Inr (Mock xs), w2))" if "ids = []"
    using c [OF that] by (simp add: hotelSearch_def)
  have z: "\<not> zero_hotels (Some data)"
    using assms(2) by (simp add: zero_hotels_def)
  show ?thesis
    using a b c d z by blast
qed

lemma hotelList_world_without_ids:
  "hotelList (byCity ''PAR'') world_without_ids =
     (Inr (Some five_without_id),
      world_without_ids\<lparr>clock := 1712000000170, hotel_replies := [],
        requests := [ApiRequest ''v1/reference-data/locations/hotels/by-city'' ''GET''
                       (Some [(''cityCode'', ''PAR'')]) ''tok1'' None]\<rparr>)"
  by (simp add: hotelList_def makeAmadeusRequest_def getAccessToken_def fetch_hotels_def
        send_def ok_def world_without_ids_def world_with_def ok_reply_def byCity_def
        hotelListQuery_def)

theorem cut_to_five_before_dropping_missing_ids_witness:
  "fst (hotelList (byCity (cityCode example_query)) world_six) = Inr (Some six_hotels)
   \<and> map the (filter truthy (map hotelId
         (take 5 (filteredHotels six_hotels (hotelName example_query)))))
       = [''H2'', ''H3'', ''H4'', ''H5'']
   \<and> map hotelId (drop 5 six_hotels) = [Some ''H6'']
   \<and> (\<exists>r w'. hotelSearchImplementation example_query world_six = (r, w') \<and>
          last (requests w') =
            ApiRequest offers_endpoint ''GET''
              (Some ((''hotelIds'', ''H2,H3,H4,H5'')
                     # tl (offersQuery example_query [''H2'', ''H3'', ''H4'', ''H5''])))
              ''tok1'' None)
   \<and> fst (hotelList (byCity (cityCode example_query)) world_without_ids)
       = Inr (Some five_without_id)
   \<and> filter truthy
         (map hotelId (take 5 (filteredHotels five_without_id (hotelName example_query)))) = []
   \<and> map hotelId (drop 5 five_without_id) = [Some ''H6'']
   \<and> fst (hotelSearchImplementation example_query world_without_ids) = Inl NoValidHotelIds"
proof -
  let ?w1 = "world_six\<lparr>clock := 1712000000170, hotel_replies := [],
        requests := [ApiRequest ''v1/reference-data/locations/hotels/by-city'' ''GET''
                       (Some [(''cityCode'', ''PAR'')]) ''tok1'' None]\<rparr>"
  have q: "cityCode example_query = ''PAR''" "hotelName example_query = None"
    by (simp_all add: example_query_def)
  have l6: "hotelList (byCity (cityCode example_query)) world_six = (Inr (Some six_hotels), ?w1)"
    using hotelList_world_six by (simp add: q)
  have n6: "six_hotels \<noteq> []"
    by (simp add: six_hotels_def)
  have i6: "[''H2'', ''H3'', ''H4'', ''H5''] = map the (filter truthy (map hotelId
      (take 5 (filteredHotels six_hotels (hotelName example_query)))))"
    using hotelIds_six by (simp add: hotelIds_def hotelsToCheck_def q)
  have t6: "getAccessToken ?w1 = (Inr ''tok1'', ?w1)"
    by (simp add: getAccessToken_def world_six_def world_with_def)
  have j: "join '','' [''H2'', ''H3'', ''H4'', ''H5''] = ''H2,H3,H4,H5''"
    by simp
  have s6: "\<exists>r w'. hotelSearchImplementation example_query world_six = (r, w') \<and>
      last (requests w') =
        ApiRequest offers_endpoint ''GET''
          (Some ((''hotelIds'', ''H2,H3,H4,H5'')
                 # tl (offersQuery example_query [''H2'', ''H3'', ''H4'', ''H5'']))) ''tok1'' None"
    using cut_to_five_before_dropping_missing_ids [OF l6 n6 i6] t6
    by (simp only: j) fastforce
  have l0: "hotelList (byCity (cityCode example_query)) world_without_ids =
     (Inr (Some five_without_id),
      world_without_ids\<lparr>clock := 1712000000170, hotel_replies := [],
        requests := [ApiRequest ''v1/reference-data/locations/hotels/by-city'' ''GET''
                       (Some [(''cityCode'', ''PAR'')]) ''tok1'' None]\<rparr>)"
    using hotelList_world_without_ids by (simp add: q)
  have n0: "five_without_id \<noteq> []"
    by (simp add: five_without_id_def)
  have e0: "filter truthy
         (map hotelId (take 5 (filteredHotels five_without_id (hotelName example_query)))) = []"
    by (simp add: filteredHotels_def q five_without_id_def mk_hotel_def truthy_def)
  have i0: "[] = map the (filter truthy (map hotelId
      (take 5 (filteredHotels five_without_id (hotelName example_query)))))"
    by (simp only: e0 list.map)
  have s0: "fst (hotelSearchImplementation example_query world_without_ids) = Inl NoValidHotelIds"
    using cut_to_five_before_dropping_missing_ids [OF l0 n0 i0]
    by simp
  have d6: "map hotelId (drop 5 six_hotels) = [Some ''H6'']"
    by (simp add: six_hotels_def mk_hotel_def)
  have d0: "map hotelId (drop 5 five_without_id) = [Some ''H6'']"
    by (simp add: five_without_id_def mk_hotel_def)
  show ?thesis
    using l6 i6 [symmetric] d6 s6 l0 e0 d0 s0 by simp
qed

section \<open>The fallback offers\<close>

lemma rating_or_4_ge_5: "5 \<le> rating_or_4 h \<longleftrightarrow> rating_at_least_5 h"
  by (auto simp: rating_or_4_def rating_at_least_5_def split: option.splits)

lemma cancellationDeadline_ok:
  assumes "parse check_in = Some t" and "\<bar>t - 3 * 86400000\<bar> \<le> 8640000000000000"
  shows "cancellationDeadline parse check_in = Inr (t - 3 * 86400000)"
  using assms by (simp add: cancellationDeadline_def toISOString_def)

lemma price_facts:
  assumes "\<bar>r\<bar> \<le> 1000000000"
  shows "\<bar>js_plus 100 (js_times r 50) - (100 + r * 50)\<bar> < 1 / 200"
    and "of_int \<lfloor>r\<rfloor> = r \<Longrightarrow> js_plus 100 (js_times r 50) = 100 + r * 50"
    and "\<bar>js_times (js_plus 100 (js_times r 50)) (literal (11 / 10))
           - js_plus 100 (js_times r 50) * (11 / 10)\<bar> < 1 / 200"
    and "\<bar>js_times (js_plus 100 (js_times r 50)) (literal (1 / 10))
           - js_plus 100 (js_times r 50) * (1 / 10)\<bar> < 1 / 200"
proof -
  have "\<bar>js_plus 100 (js_times r 50) - (100 + r * 50)\<bar> \<le> 1 / 2 ^ 15"
    using assms by (rule basePrice_err)
  also have "\<dots> < 1 / 200"
    by simp
  finally show "\<bar>js_plus 100 (js_times r 50) - (100 + r * 50)\<bar> < 1 / 200" .
next
  assume i: "of_int \<lfloor>r\<rfloor> = r"
  have "\<bar>(of_int \<lfloor>r\<rfloor> :: rat)\<bar> \<le> 1000000000"
    unfolding i by (rule assms)
  then have "\<bar>\<lfloor>r\<rfloor>\<bar> \<le> 1000000000"
    by linarith
  from basePrice_int [OF this] have "js_plus 100 (js_times (of_int \<lfloor>r\<rfloor>) 50)
      = 100 + of_int \<lfloor>r\<rfloor> * 50"
    by simp
  then show "js_plus 100 (js_times r 50) = 100 + r * 50"
    unfolding i .
next
  have b: "\<bar>js_plus 100 (js_times r 50)\<bar> \<le> 2 ^ 37"
    using assms by (rule basePrice_bound)
  have "\<bar>js_times (js_plus 100 (js_times r 50)) (literal (11 / 10))
           - js_plus 100 (js_times r 50) * (11 / 10)\<bar> \<le> 5 / 2 ^ 16"
    using b by (rule times_literal_err) simp
  also have "\<dots> < 1 / 200"
    by simp
  finally show "\<bar>js_times (js_plus 100 (js_times r 50)) (literal (11 / 10))
           - js_plus 100 (js_times r 50) * (11 / 10)\<bar> < 1 / 200" .
  have "\<bar>js_times (js_plus 100 (js_times r 50)) (literal (1 / 10))
           - js_plus 100 (js_times r 50) * (1 / 10)\<bar> \<le> 5 / 2 ^ 16"
    using b by (rule times_literal_err) simp
  also have "\<dots> < 1 / 200"
    by simp
  finally show "\<bar>js_times (js_plus 100 (js_times r 50)) (literal (1 / 10))
           - js_plus 100 (js_times r 50) * (1 / 10)\<bar> < 1 / 200" .
qed

lemma mockOffer_ok:
  assumes "cancellationDeadline parse check_in = Inr (t - 3 * 86400000)"
  shows "\<exists>x w1. mockOffer parse check_in check_out h w = (Inr x, w1) \<and> priced_from_rating t h x"
proof -
  obtain hotel_id w1 where i:
    "(if truthy (hotelId h) then (the (hotelId h), w)
      else (case random_below_10000 w of (n, w1) \<Rightarrow> (''MOCK-'' @ digits n, w1))) = (hotel_id, w1)"
    by (cases "if truthy (hotelId h) then (the (hotelId h), w)
      else (case random_below_10000 w of (n, w1) \<Rightarrow> (''MOCK-'' @ digits n, w1))")
  show ?thesis
    unfolding mockOffer_def i
    using assms
    by (simp add: priced_from_rating_def Let_def rating_or_4_ge_5)
qed

lemma mockOffers_ok:
  assumes "cancellationDeadline parse check_in = Inr (t - 3 * 86400000)"
  shows "\<exists>xs w1. mockOffers parse check_in check_out hs w = (Inr xs, w1) \<and>
           list_all2 (priced_from_rating t) hs xs"
proof (induction hs arbitrary: w)
  case Nil
  show ?case by simp
next
  case (Cons h hs)
  obtain x w1 where one: "mockOffer parse check_in check_out h w = (Inr x, w1)"
      "priced_from_rating t h x"
    using mockOffer_ok [OF assms] by blast
  obtain xs w2 where rest: "mockOffers parse check_in check_out hs w1 = (Inr xs, w2)"
      "list_all2 (priced_from_rating t) hs xs"
    using Cons.IH by blast
  show ?case
    using one rest by simp
qed

lemma getMockHotelOffers_ok:
  assumes "hotelList (byCity city) w = (Inr (Some hotels), w1)"
    and "parse check_in = Some t" and "\<bar>t - 3 * 86400000\<bar> \<le> 8640000000000000"
  shows "\<exists>xs w2. getMockHotelOffers parse city check_in check_out w = (Inr xs, w2) \<and>
           list_all2 (priced_from_rating t) hotels xs"
proof -
  have d: "cancellationDeadline parse check_in = Inr (t - 3 * 86400000)"
    using assms(2,3) by (rule cancellationDeadline_ok)
  obtain xs w2 where m: "mockOffers parse check_in check_out hotels w1 = (Inr xs, w2)"
      "list_all2 (priced_from_rating t) hotels xs"
    using mockOffers_ok [OF d] by blast
  then show ?thesis
    using assms(1) by (simp add: getMockHotelOffers_def)
qed

lemma priced_to_two_decimals:
  assumes "priced_from_rating t h x" and "\<bar>rating_or_4 h\<bar> \<le> 1000000000"
  shows "prices_to_two_decimals h x"
proof -
  obtain o1 where o: "offers x = [o1]"
    using assms(1) by (auto simp: priced_from_rating_def split: list.splits)
  obtain tx where tx: "price_taxes o1 = [tx]"
    using assms(1) o by (auto simp: priced_from_rating_def split: list.splits)
  have p: "price_base o1 = js_plus 100 (js_times (rating_or_4 h) 50)"
      "price_total o1 = js_times (js_plus 100 (js_times (rating_or_4 h) 50)) (literal (11 / 10))"
      "tax_amount tx = js_times (js_plus 100 (js_times (rating_or_4 h) 50)) (literal (1 / 10))"
    using assms(1) o tx by (simp_all add: priced_from_rating_def)
  show ?thesis
    using price_facts(1,3,4) [OF assms(2)]
    by (simp add: prices_to_two_decimals_def o tx p)
qed

lemma priced_whole_rating:
  assumes "priced_from_rating t h x" and "rating_or_4 h = of_int k" and "\<bar>k\<bar> \<le> 1000000000"
  shows "map price_base (offers x) = [of_int (100 + k * 50)]"
proof -
  obtain o1 where o: "offers x = [o1]"
    using assms(1) by (auto simp: priced_from_rating_def split: list.splits)
  have "price_base o1 = js_plus 100 (js_times (of_int k) 50)"
    using assms(1,2) o by (simp add: priced_from_rating_def)
  also have "\<dots> = of_int (100 + k * 50)"
    using assms(3) by (rule basePrice_int)
  finally show ?thesis
    by (simp add: o)
qed

lemma hotelSearch_returns_with_valid_date:
  assumes "parse (checkInDate params) = Some t" and "\<bar>t - 3 * 86400000\<bar> \<le> 8640000000000000"
  shows "\<exists>a w'. hotelSearch parse params w = (Inr a, w')"
proof -
  have d: "cancellationDeadline parse (checkInDate params) = Inr (t - 3 * 86400000)"
    using assms by (rule cancellationDeadline_ok)
  obtain r w0 where i: "hotelSearchImplementation params w = (r, w0)"
    by (cases "hotelSearchImplementation params w")
  show ?thesis
  proof (cases r)
    case (Inr j)
    with i show ?thesis by (simp add: hotelSearch_def)
  next
    case (Inl e)
    obtain r1 w1 where h: "hotelList (byCity (cityCode params)) w0 = (r1, w1)"
      by (cases "hotelList (byCity (cityCode params)) w0")
    have "\<exists>xs w2. getMockHotelOffers parse (cityCode params) (checkInDate params)
        (checkOutDate params) w0 = (Inr xs, w2)"
    proof (cases r1)
      case (Inl e1)
      with h d show ?thesis
        by (simp add: getMockHotelOffers_def basicMock_def)
    next
      case (Inr l)
      obtain xs w2 where "mockOffers parse (checkInDate params) (checkOutDate params)
          (case l of None \<Rightarrow> [] | Some hs \<Rightarrow> hs) w1 = (Inr xs, w2)"
        using mockOffers_ok [OF d] by blast
      with h Inr show ?thesis
        by (simp add: getMockHotelOffers_def)
    qed
    with i Inl show ?thesis
      by (auto simp: hotelSearch_def)
  qed
qed

lemma hotelSearch_throws_without_date:
  assumes "parse (checkInDate params) = None"
    and "hotelSearchImplementation params w = (Inl e, w0)"
    and "hotelList (byCity (cityCode params)) w0 = (r1, w1)"
    and "(case r1 of Inl e1 \<Rightarrow> True | Inr None \<Rightarrow> False | Inr (Some hs) \<Rightarrow> hs \<noteq> [])"
  shows "fst (hotelSearch parse params w) = Inl RangeError"
proof -
  have d: "cancellationDeadline parse (checkInDate params) = Inl RangeError"
    using assms(1) by (simp add: cancellationDeadline_def toISOString_def)
  have b: "basicMock parse (cityCode params) (checkInDate params) (checkOutDate params) v
      = Inl RangeError" for v
    using d by (simp add: basicMock_def)
  have m: "\<exists>v. mockOffer parse (checkInDate params) (checkOutDate params) h w1
      = (Inl RangeError, v)" for h
    using d by (auto simp: mockOffer_def Let_def split: prod.splits)
  have "fst (getMockHotelOffers parse (cityCode params) (checkInDate params)
      (checkOutDate params) w0) = Inl RangeError"
  proof (cases r1)
    case (Inl e1)
    with assms(3) b show ?thesis
      by (simp add: getMockHotelOffers_def)
  next
    case (Inr l)
    with assms(4) obtain h hs where l: "l = Some (h # hs)"
      by (cases l) (auto simp: neq_Nil_conv)
    obtain v where "mockOffer parse (checkInDate params) (checkOutDate params) h w1
      = (Inl RangeError, v)"
      using m by blast
    with assms(3) Inr l b show ?thesis
      by (simp add: getMockHotelOffers_def)
  qed
  then show ?thesis
    using assms(2)
    by (auto simp: hotelSearch_def split: prod.splits sum.splits)
qed

lemma hotelList_world_offers_down:
  "hotelList (byCity ''PAR'') world_offers_down =
     (Inr (Some [five_star]),
      world_offers_down\<lparr>clock := 1712000000170,
        hotel_replies := [ok_reply 50 (Some [five_star])],
        requests := [ApiRequest ''v1/reference-data/locations/hotels/by-city'' ''GET''
                       (Some [(''cityCode'', ''PAR'')]) ''tok1'' None]\<rparr>)"
  by (simp add: hotelList_def makeAmadeusRequest_def getAccessToken_def fetch_hotels_def
        send_def ok_def world_offers_down_def world_with_def ok_reply_def byCity_def
        hotelListQuery_def)

lemma offersQuery_example:
  "offersQuery (example_query\<lparr>checkInDate := d\<rparr>) [''HLPAR001''] =
      [(''hotelIds'', ''HLPAR001''), (''checkInDate'', d),
       (''checkOutDate'', ''2025-04-05''), (''adults'', ''2''),
       (''roomQuantity'', ''1''), (''currency'', ''USD''), (''paymentPolicy'', ''NONE'')]"
  by (simp add: offersQuery_def example_query_def truthy_def toString_int_def digits.simps
        digit_char_def)

lemma search_fails_world_offers_down:
  "hotelSearchImplementation (example_query\<lparr>checkInDate := d\<rparr>) world_offers_down =
     (Inl (ApiError 500 ''Internal Server Error'' ''{}''),
      world_offers_down\<lparr>clock := 1712000000220,
        hotel_replies := [ok_reply 50 (Some [five_star])], offers_replies := [],
        requests := [ApiRequest ''v1/reference-data/locations/hotels/by-city'' ''GET''
                       (Some [(''cityCode'', ''PAR'')]) ''tok1'' None,
                     ApiRequest ''v3/shopping/hotel-offers'' ''GET''
                       (Some [(''hotelIds'', ''HLPAR001''), (''checkInDate'', d),
                              (''checkOutDate'', ''2025-04-05''), (''adults'', ''2''),
                              (''roomQuantity'', ''1''), (''currency'', ''USD''),
                              (''paymentPolicy'', ''NONE'')]) ''tok1'' None]\<rparr>)"
proof -
  have q: "cityCode (example_query\<lparr>checkInDate := d\<rparr>) = ''PAR''"
      "hotelName (example_query\<lparr>checkInDate := d\<rparr>) = None"
    by (simp_all add: example_query_def)
  have ids: "hotelIds [five_star] None = [''HLPAR001'']"
    by (simp add: hotelIds_def hotelsToCheck_def filteredHotels_def five_star_def mk_hotel_def
          truthy_def)
  have i: "hotelSearchImplementation (example_query\<lparr>checkInDate := d\<rparr>) world_offers_down =
      makeOffersRequest (example_query\<lparr>checkInDate := d\<rparr>) [''HLPAR001'']
        (world_offers_down\<lparr>clock := 1712000000170,
           hotel_replies := [ok_reply 50 (Some [five_star])],
           requests := [ApiRequest ''v1/reference-data/locations/hotels/by-city'' ''GET''
                          (Some [(''cityCode'', ''PAR'')]) ''tok1'' None]\<rparr>)"
    by (simp add: hotelSearchImplementation_def q hotelList_world_offers_down ids)
  show ?thesis
    unfolding i
    by (simp add: makeOffersRequest_def offersQuery_example
          makeAmadeusRequest_def getAccessToken_def fetch_offers_def
          send_def ok_def world_offers_down_def world_with_def error_reply_def)
qed

lemma search_fails_example:
  "hotelSearchImplementation example_query world_offers_down =
     (Inl (ApiError 500 ''Internal Server Error'' ''{}''), world_offers_down_failed)"
proof -
  have "example_query\<lparr>checkInDate := ''2025-04-01''\<rparr> = example_query"
    by (simp add: example_query_def)
  then show ?thesis
    using search_fails_world_offers_down [of "''2025-04-01''"]
    by (simp add: world_offers_down_failed_def)
qed

lemma second_listing_example:
  "hotelList (byCity ''PAR'') world_offers_down_failed =
     (Inr (Some [five_star]), world_offers_down_listed)"
  by (simp add: hotelList_def makeAmadeusRequest_def getAccessToken_def fetch_hotels_def
        send_def ok_def world_offers_down_listed_def world_offers_down_failed_def
        world_offers_down_def world_with_def ok_reply_def byCity_def hotelListQuery_def)

lemma Date_parse_example: "Date_parse legacy ''2025-04-01'' = Some 1743465600000"
  by (simp add: Date_parse_def date_only_def digit_value_def days_from_civil_def)

lemma Date_parse_tomorrow: "Date_parse legacy ''tomorrow'' = None"
  by (simp add: Date_parse_def date_only_def digit_value_def)

lemma Date_parse_next_friday: "Date_parse legacy ''next friday'' = None"
  by (simp add: Date_parse_def date_only_def digit_value_def)

lemma clock_text: "toString_int 1712000000270 = ''1712000000270''"
  by (simp add: toString_int_def digits.simps digit_char_def)

lemma mockOffer_five_star:
  "mockOffer (Date_parse legacy) ''2025-04-01'' ''2025-04-05'' five_star world_offers_down_listed =
     (Inr five_star_offer, world_offers_down_listed)"
proof -
  have r: "rating_or_4 five_star = 5" "truthy (hotelId five_star)"
      "the (hotelId five_star) = ''HLPAR001''"
    by (simp_all add: rating_or_4_def five_star_def mk_hotel_def truthy_def)
  have c: "clock world_offers_down_listed = 1712000000270"
    by (simp add: world_offers_down_listed_def)
  have d: "cancellationDeadline (Date_parse legacy) ''2025-04-01'' = Inr 1743206400000"
    by (simp add: cancellationDeadline_def toISOString_def Date_parse_example)
  show ?thesis
    by (simp add: mockOffer_def r c d clock_text price_350 total_385 tax_35 fee_70
          five_star_offer_def)
qed

lemma fallback_example:
  "getMockHotelOffers (Date_parse legacy) ''PAR'' ''2025-04-01'' ''2025-04-05''
       world_offers_down_failed =
     (Inr [five_star_offer], world_offers_down_listed)"
  by (simp add: getMockHotelOffers_def second_listing_example mockOffer_five_star)

lemma hotelSearch_example:
  "hotelSearch (Date_parse legacy) example_query world_offers_down =
     (Inr (Mock [five_star_offer]), world_offers_down_listed)"
proof -
  have q: "cityCode example_query = ''PAR''" "checkInDate example_query = ''2025-04-01''"
      "checkOutDate example_query = ''2025-04-05''"
    by (simp_all add: example_query_def)
  show ?thesis
    by (simp add: hotelSearch_def search_fails_example q fallback_example)
qed

lemma hotelList_zero_star:
  assumes "accessToken w = Some ''tok1''" and "tokenExpiry w > clock w"
    and "hotel_replies w = ok_reply 50 (Some [zero_star]) # rest"
  shows "hotelList (byCity ''PAR'') w =
     (Inr (Some [zero_star]),
      w\<lparr>clock := clock w + 50, hotel_replies := rest,
        requests := requests w @ [ApiRequest ''v1/reference-data/locations/hotels/by-city''
                                    ''GET'' (Some [(''cityCode'', ''PAR'')]) ''tok1'' None]\<rparr>)"
  using assms
  by (simp add: hotelList_def makeAmadeusRequest_def getAccessToken_def fetch_hotels_def
        send_def ok_def ok_reply_def byCity_def hotelListQuery_def)

lemma search_fails_world_zero_star:
  "hotelSearchImplementation (example_query\<lparr>checkInDate := d\<rparr>) world_zero_star =
     (Inl (ApiError 500 ''Internal Server Error'' ''{}''),
      world_zero_star\<lparr>clock := 1712000000220,
        hotel_replies := [ok_reply 50 (Some [zero_star])], offers_replies := [],
        requests := [ApiRequest ''v1/reference-data/locations/hotels/by-city'' ''GET''
                       (Some [(''cityCode'', ''PAR'')]) ''tok1'' None,
                     ApiRequest ''v3/shopping/hotel-offers'' ''GET''
                       (Some [(''hotelIds'', ''HLPAR002''), (''checkInDate'', d),
                              (''checkOutDate'', ''2025-04-05''), (''adults'', ''2''),
                              (''roomQuantity'', ''1''), (''currency'', ''USD''),
                              (''paymentPolicy'', ''NONE'')]) ''tok1'' None]\<rparr>)"
proof -
  have q: "cityCode (example_query\<lparr>checkInDate := d\<rparr>) = ''PAR''"
      "hotelName (example_query\<lparr>checkInDate := d\<rparr>) = None"
    by (simp_all add: example_query_def)
  have ids: "hotelIds [zero_star] None = [''HLPAR002'']"
    by (simp add: hotelIds_def hotelsToCheck_def filteredHotels_def zero_star_def mk_hotel_def
          truthy_def)
  have o: "offersQuery (example_query\<lparr>checkInDate := d\<rparr>) [''HLPAR002''] =
      [(''hotelIds'', ''HLPAR002''), (''checkInDate'', d),
       (''checkOutDate'', ''2025-04-05''), (''adults'', ''2''),
       (''roomQuantity'', ''1''), (''currency'', ''USD''), (''paymentPolicy'', ''NONE'')]"
    by (simp add: offersQuery_def example_query_def truthy_def toString_int_def digits.simps
          digit_char_def)
  have l: "hotelList (byCity ''PAR'') world_zero_star =
      (Inr (Some [zero_star]),
       world_zero_star\<lparr>clock := 1712000000170,
         hotel_replies := [ok_reply 50 (Some [zero_star])],
         requests := [ApiRequest ''v1/reference-data/locations/hotels/by-city'' ''GET''
                        (Some [(''cityCode'', ''PAR'')]) ''tok1'' None]\<rparr>)"
    using hotelList_zero_star [of world_zero_star "[ok_reply 50 (Some [zero_star])]"]
    by (simp add: world_zero_star_def world_with_def)
  have i: "hotelSearchImplementation (example_query\<lparr>checkInDate := d\<rparr>) world_zero_star =
      makeOffersRequest (example_query\<lparr>checkInDate := d\<rparr>) [''HLPAR002'']
        (world_zero_star\<lparr>clock := 1712000000170,
           hotel_replies := [ok_reply 50 (Some [zero_star])],
           requests := [ApiRequest ''v1/reference-data/locations/hotels/by-city'' ''GET''
                          (Some [(''cityCode'', ''PAR'')]) ''tok1'' None]\<rparr>)"
    by (simp add: hotelSearchImplementation_def q l ids)
  show ?thesis
    unfolding i
    by (simp add: makeOffersRequest_def o
          makeAmadeusRequest_def getAccessToken_def fetch_offers_def
          send_def ok_def world_zero_star_def world_with_def error_reply_def)
qed

lemma price_300: "js_plus 100 (js_times 4 50) = 300"
  using basePrice_int [of 4] by simp

lemma total_330: "js_times 300 (literal (11 / 10)) = 330"
  unfolding js_times_def literal_def by code_simp

lemma tax_30: "js_times 300 (literal (1 / 10)) = 30"
  unfolding js_times_def literal_def by code_simp

lemma fee_60: "js_times 300 (literal (1 / 5)) = 60"
  unfolding js_times_def literal_def by code_simp

lemma mockOffer_zero_star:
  assumes "clock w = 1712000000270"
  shows "mockOffer (Date_parse legacy) ''2025-04-01'' ''2025-04-05'' zero_star w =
     (Inr zero_star_offer, w)"
proof -
  have r: "rating_or_4 zero_star = 4" "truthy (hotelId zero_star)"
      "the (hotelId zero_star) = ''HLPAR002''"
    by (simp_all add: rating_or_4_def zero_star_def mk_hotel_def truthy_def)
  have d: "cancellationDeadline (Date_parse legacy) ''2025-04-01'' = Inr 1743206400000"
    by (simp add: cancellationDeadline_def toISOString_def Date_parse_example)
  show ?thesis
    by (simp add: mockOffer_def r assms d clock_text price_300 total_330 tax_30 fee_60
          zero_star_offer_def)
qed

lemma hotelSearch_zero_star:
  "fst (hotelSearch (Date_parse legacy) example_query world_zero_star) =
     Inr (Mock [zero_star_offer])"
proof -
  have q: "cityCode example_query = ''PAR''" "checkInDate example_query = ''2025-04-01''"
      "checkOutDate example_query = ''2025-04-05''"
      "example_query\<lparr>checkInDate := ''2025-04-01''\<rparr> = example_query"
    by (simp_all add: example_query_def)
  let ?w0 = "world_zero_star\<lparr>clock := 1712000000220,
        hotel_replies := [ok_reply 50 (Some [zero_star])], offers_replies := [],
        requests := [ApiRequest ''v1/reference-data/locations/hotels/by-city'' ''GET''
                       (Some [(''cityCode'', ''PAR'')]) ''tok1'' None,
                     ApiRequest ''v3/shopping/hotel-offers'' ''GET''
                       (Some [(''hotelIds'', ''HLPAR002''), (''checkInDate'', ''2025-04-01''),
                              (''checkOutDate'', ''2025-04-05''), (''adults'', ''2''),
                              (''roomQuantity'', ''1''), (''currency'', ''USD''),
                              (''paymentPolicy'', ''NONE'')]) ''tok1'' None]\<rparr>"
  have a: "hotelSearchImplementation example_query world_zero_star =
      (Inl (ApiError 500 ''Internal Server Error'' ''{}''), ?w0)"
    using search_fails_world_zero_star [of "''2025-04-01''"] by (simp only: q)
  obtain w1 where l: "hotelList (byCity ''PAR'') ?w0 = (Inr (Some [zero_star]), w1)"
      and c: "clock w1 = 1712000000270"
    using hotelList_zero_star [of ?w0 "[]"]
    by (simp add: world_zero_star_def world_with_def)
  have m: "mockOffer (Date_parse legacy) ''2025-04-01'' ''2025-04-05'' zero_star w1 =
      (Inr zero_star_offer, w1)"
    using c by (rule mockOffer_zero_star)
  have "getMockHotelOffers (Date_parse legacy) ''PAR'' ''2025-04-01'' ''2025-04-05'' ?w0 =
      (Inr [zero_star_offer], w1)"
    by (simp add: getMockHotelOffers_def l m)
  then show ?thesis
    by (simp add: hotelSearch_def a q)
qed

text \<open>
  C1, as the code has it. A search has failed, the listing read by
  \<^verbatim>\<open>getMockHotelOffers\<close> gives hotels, and the check-in date denotes an instant \<open>t\<close>
  whose third day before is within the range of \<^verbatim>\<open>Date\<close>. Then \<^verbatim>\<open>hotelSearch\<close>
  returns one entry for each hotel, in the order of the listing. Each entry carries its
  hotel and one offer: of room type \<^verbatim>\<open>SUITE\<close> if the rating of the hotel is at least 5
  and \<^verbatim>\<open>STANDARD\<close> otherwise, with the deadline \<open>t\<close> less three days, check-in at 15:00
  and check-out at 11:00, and one included tax. The prices are computed in doubles from
  \<open>r\<close>, the rating \<^verbatim>\<open>hotel.rating || 4\<close>: the rating of the listing, and 4 when the listing
  gives none or gives 0. The base price is \<open>100 + r * 50\<close>, the total the base price times
  the double 1.1, the tax the base price times the double 0.1. For \<open>r\<close> of magnitude at
  most \<open>10^9\<close> each of the three is within 0.005 of the exact value of its formula, and the
  base price is exact when \<open>r\<close> is whole.
\<close>

theorem fallback_offers_follow_rating:
  assumes "hotelSearchImplementation params w = (Inl e, w0)"
    and "hotelList (byCity (cityCode params)) w0 = (Inr (Some hotels), w1)"
    and "hotels \<noteq> []"
    and "parse (checkInDate params) = Some t"
    and "\<bar>t - 3 * 86400000\<bar> \<le> 8640000000000000"
  shows "(\<exists>xs w2. hotelSearch parse params w = (Inr (Mock xs), w2)
            \<and> length xs = length hotels
            \<and> (\<forall>i < length hotels.
                  priced_from_rating t (hotels ! i) (xs ! i)
                  \<and> (\<bar>rating_or_4 (hotels ! i)\<bar> \<le> 1000000000 \<longrightarrow>
                       prices_to_two_decimals (hotels ! i) (xs ! i))
                  \<and> (\<forall>k. rating_or_4 (hotels ! i) = of_int k \<and> \<bar>k\<bar> \<le> 1000000000 \<longrightarrow>
                       map price_base (offers (xs ! i)) = [of_int (100 + k * 50)])))
     \<and> (\<forall>h r. rating h = Some r \<and> r \<noteq> 0 \<longrightarrow> rating_or_4 h = r)
     \<and> (\<forall>h. rating h = None \<longrightarrow> rating_or_4 h = 4)
     \<and> (\<forall>h. rating h = Some 0 \<longrightarrow> rating_or_4 h = 4)"
proof -
  obtain xs w2 where m: "getMockHotelOffers parse (cityCode params) (checkInDate params)
        (checkOutDate params) w0 = (Inr xs, w2)"
      "list_all2 (priced_from_rating t) hotels xs"
    using getMockHotelOffers_ok [where parse = parse and check_in = "checkInDate params",
        OF assms(2,4,5)]
    by blast
  have run: "hotelSearch parse params w = (Inr (Mock xs), w2)"
    using assms(1) m(1) by (simp add: hotelSearch_def)
  have len: "length xs = length hotels"
    using m(2) by (simp add: list_all2_lengthD)
  have p: "priced_from_rating t (hotels ! i) (xs ! i)" if "i < length hotels" for i
    using m(2) that by (simp add: list_all2_conv_all_nth)
  have "\<forall>i < length hotels.
      priced_from_rating t (hotels ! i) (xs ! i)
      \<and> (\<bar>rating_or_4 (hotels ! i)\<bar> \<le> 1000000000 \<longrightarrow>
           prices_to_two_decimals (hotels ! i) (xs ! i))
      \<and> (\<forall>k. rating_or_4 (hotels ! i) = of_int k \<and> \<bar>k\<bar> \<le> 1000000000 \<longrightarrow>
           map price_base (offers (xs ! i)) = [of_int (100 + k * 50)])"
    using p priced_to_two_decimals priced_whole_rating by blast
  with run len have "\<exists>xs w2. hotelSearch parse params w = (Inr (Mock xs), w2)
            \<and> length xs = length hotels
            \<and> (\<forall>i < length hotels.
                  priced_from_rating t (hotels ! i) (xs ! i)
                  \<and> (\<bar>rating_or_4 (hotels ! i)\<bar> \<le> 1000000000 \<longrightarrow>
                       prices_to_two_decimals (hotels ! i) (xs ! i))
                  \<and> (\<forall>k. rating_or_4 (hotels ! i) = of_int k \<and> \<bar>k\<bar> \<le> 1000000000 \<longrightarrow>
                       map price_base (offers (xs ! i)) = [of_int (100 + k * 50)]))"
    by blast
  moreover have "\<forall>h r. rating h = Some r \<and> r \<noteq> 0 \<longrightarrow> rating_or_4 h = r"
    by (simp add: rating_or_4_def)
  moreover have "\<forall>h. rating h = None \<longrightarrow> rating_or_4 h = 4"
    by (simp add: rating_or_4_def)
  moreover have "\<forall>h. rating h = Some 0 \<longrightarrow> rating_or_4 h = 4"
    by (simp add: rating_or_4_def)
  ultimately show ?thesis
    by blast
qed

theorem fallback_offers_follow_rating_witness:
  "\<forall>legacy.
     hotelSearchImplementation example_query world_offers_down =
       (Inl (ApiError 500 ''Internal Server Error'' ''{}''), world_offers_down_failed)
     \<and> hotelList (byCity (cityCode example_query)) world_offers_down_failed =
         (Inr (Some [five_star]), world_offers_down_listed)
     \<and> rating five_star = Some 5
     \<and> Date_parse legacy (checkInDate example_query) = Some 1743465600000
     \<and> hotelSearch (Date_parse legacy) example_query world_offers_down =
         (Inr (Mock [five_star_offer]), world_offers_down_listed)
     \<and> priced_from_rating 1743465600000 five_star five_star_offer
     \<and> prices_to_two_decimals five_star five_star_offer
     \<and> map room_type (offers five_star_offer) = [''SUITE'']
     \<and> map price_base (offers five_star_offer) = [350]
     \<and> map price_total (offers five_star_offer) = [385 + 1 / 2 ^ 44]"
proof
  fix legacy
  have q: "cityCode example_query = ''PAR''" "checkInDate example_query = ''2025-04-01''"
      "checkOutDate example_query = ''2025-04-05''"
    by (simp_all add: example_query_def)
  have a: "hotelSearchImplementation example_query world_offers_down =
     (Inl (ApiError 500 ''Internal Server Error'' ''{}''), world_offers_down_failed)"
    by (rule search_fails_example)
  have b: "hotelList (byCity (cityCode example_query)) world_offers_down_failed =
       (Inr (Some [five_star]), world_offers_down_listed)"
    by (simp add: q second_listing_example)
  have c: "[five_star] \<noteq> []"
    by simp
  have d: "Date_parse legacy (checkInDate example_query) = Some 1743465600000"
    by (simp add: q Date_parse_example)
  have e: "\<bar>1743465600000 - 3 * 86400000\<bar> \<le> (8640000000000000::int)"
    by simp
  have run: "hotelSearch (Date_parse legacy) example_query world_offers_down =
       (Inr (Mock [five_star_offer]), world_offers_down_listed)"
    by (rule hotelSearch_example)
  have r: "rating_or_4 five_star = 5"
    by (simp add: rating_or_4_def five_star_def mk_hotel_def)
  have "priced_from_rating 1743465600000 five_star five_star_offer
      \<and> prices_to_two_decimals five_star five_star_offer"
    using fallback_offers_follow_rating [where parse = "Date_parse legacy"
        and params = example_query, OF a b c d e] run r
    by simp
  then show "hotelSearchImplementation example_query world_offers_down =
       (Inl (ApiError 500 ''Internal Server Error'' ''{}''), world_offers_down_failed)
     \<and> hotelList (byCity (cityCode example_query)) world_offers_down_failed =
         (Inr (Some [five_star]), world_offers_down_listed)
     \<and> rating five_star = Some 5
     \<and> Date_parse legacy (checkInDate example_query) = Some 1743465600000
     \<and> hotelSearch (Date_parse legacy) example_query world_offers_down =
         (Inr (Mock [five_star_offer]), world_offers_down_listed)
     \<and> priced_from_rating 1743465600000 five_star five_star_offer
     \<and> prices_to_two_decimals five_star five_star_offer
     \<and> map room_type (offers five_star_offer) = [''SUITE'']
     \<and> map price_base (offers five_star_offer) = [350]
     \<and> map price_total (offers five_star_offer) = [385 + 1 / 2 ^ 44]"
    using a b d run by (simp add: five_star_offer_def five_star_def mk_hotel_def)
qed

text \<open>
  C1, as stated. The listing rates the hotel \<^verbatim>\<open>HLPAR002\<close> with 0 and the query for offers
  is answered with status 500. The formula \<open>100 + rating * 50\<close> gives the base price 100;
  the fallback offer has the base price 300, since \<^verbatim>\<open>hotel.rating || 4\<close> is 4. And with
  the check-in date \<^verbatim>\<open>next friday\<close>, which is not a date, there is no fallback offer for
  this hotel: \<^verbatim>\<open>hotelSearch\<close> throws \<open>RangeError\<close>.
\<close>

theorem fallback_offer_of_hotel_rated_0:
  "\<forall>legacy.
     rating zero_star = Some 0
     \<and> base_as_stated zero_star = Some 100
     \<and> fst (hotelSearchImplementation example_query world_zero_star) =
         Inl (ApiError 500 ''Internal Server Error'' ''{}'')
     \<and> fst (hotelSearch (Date_parse legacy) example_query world_zero_star) =
         Inr (Mock [zero_star_offer])
     \<and> map price_base (offers zero_star_offer) = [300]
     \<and> fst (hotelSearchImplementation (example_query\<lparr>checkInDate := ''next friday''\<rparr>)
           world_zero_star) = Inl (ApiError 500 ''Internal Server Error'' ''{}'')
     \<and> fst (hotelSearch (Date_parse legacy) (example_query\<lparr>checkInDate := ''next friday''\<rparr>)
           world_zero_star) = Inl RangeError"
proof
  fix legacy
  let ?q = "example_query\<lparr>checkInDate := ''next friday''\<rparr>"
  let ?w0 = "world_zero_star\<lparr>clock := 1712000000220,
        hotel_replies := [ok_reply 50 (Some [zero_star])], offers_replies := [],
        requests := [ApiRequest ''v1/reference-data/locations/hotels/by-city'' ''GET''
                       (Some [(''cityCode'', ''PAR'')]) ''tok1'' None,
                     ApiRequest ''v3/shopping/hotel-offers'' ''GET''
                       (Some [(''hotelIds'', ''HLPAR002''), (''checkInDate'', ''next friday''),
                              (''checkOutDate'', ''2025-04-05''), (''adults'', ''2''),
                              (''roomQuantity'', ''1''), (''currency'', ''USD''),
                              (''paymentPolicy'', ''NONE'')]) ''tok1'' None]\<rparr>"
  have e: "example_query\<lparr>checkInDate := ''2025-04-01''\<rparr> = example_query"
    by (simp add: example_query_def)
  have a1: "fst (hotelSearchImplementation example_query world_zero_star) =
         Inl (ApiError 500 ''Internal Server Error'' ''{}'')"
    using search_fails_world_zero_star [of "''2025-04-01''"] by (simp only: e fst_conv)
  have a: "hotelSearchImplementation ?q world_zero_star =
      (Inl (ApiError 500 ''Internal Server Error'' ''{}''), ?w0)"
    by (rule search_fails_world_zero_star)
  have q: "cityCode ?q = ''PAR''" "checkInDate ?q = ''next friday''"
    by (simp_all add: example_query_def)
  obtain w1 where l: "hotelList (byCity (cityCode ?q)) ?w0 = (Inr (Some [zero_star]), w1)"
    using hotelList_zero_star [of ?w0 "[]"]
    by (simp add: q world_zero_star_def world_with_def)
  have p: "Date_parse legacy (checkInDate ?q) = None"
    by (simp add: q Date_parse_next_friday)
  have t: "fst (hotelSearch (Date_parse legacy) ?q world_zero_star) = Inl RangeError"
    by (rule hotelSearch_throws_without_date
          [where parse = "Date_parse legacy" and params = "?q", OF p a l]) simp
  show "rating zero_star = Some 0
     \<and> base_as_stated zero_star = Some 100
     \<and> fst (hotelSearchImplementation example_query world_zero_star) =
         Inl (ApiError 500 ''Internal Server Error'' ''{}'')
     \<and> fst (hotelSearch (Date_parse legacy) example_query world_zero_star) =
         Inr (Mock [zero_star_offer])
     \<and> map price_base (offers zero_star_offer) = [300]
     \<and> fst (hotelSearchImplementation ?q world_zero_star) =
         Inl (ApiError 500 ''Internal Server Error'' ''{}'')
     \<and> fst (hotelSearch (Date_parse legacy) ?q world_zero_star) = Inl RangeError"
    using a1 a t hotelSearch_zero_star [of legacy]
    by (simp add: base_as_stated_def zero_star_def mk_hotel_def zero_star_offer_def)
qed

section \<open>Search, details and booking under failure\<close>

text \<open>
  C6. A search with the check-in date \<^verbatim>\<open>tomorrow\<close>, which no \<^verbatim>\<open>Date\<close> can hold: the
  listing is answered, the query for offers is answered with status 500, and the fallback
  is entered. Building the fallback offer throws \<open>RangeError\<close> at \<^verbatim>\<open>toISOString\<close>; the
  \<^verbatim>\<open>catch\<close> block of \<^verbatim>\<open>getMockHotelOffers\<close> throws it again for the same reason, and
  \<^verbatim>\<open>hotelSearch\<close> rejects with it.
\<close>

theorem search_with_unparseable_check_in_throws:
  "Date_parse legacy ''tomorrow'' = None
   \<and> fst (hotelSearchImplementation (example_query\<lparr>checkInDate := ''tomorrow''\<rparr>)
         world_offers_down) = Inl (ApiError 500 ''Internal Server Error'' ''{}'')
   \<and> fst (hotelSearch (Date_parse legacy) (example_query\<lparr>checkInDate := ''tomorrow''\<rparr>)
         world_offers_down) = Inl RangeError"
proof -
  let ?q = "example_query\<lparr>checkInDate := ''tomorrow''\<rparr>"
  let ?w0 = "world_offers_down\<lparr>clock := 1712000000220,
        hotel_replies := [ok_reply 50 (Some [five_star])], offers_replies := [],
        requests := [ApiRequest ''v1/reference-data/locations/hotels/by-city'' ''GET''
                       (Some [(''cityCode'', ''PAR'')]) ''tok1'' None,
                     ApiRequest ''v3/shopping/hotel-offers'' ''GET''
                       (Some [(''hotelIds'', ''HLPAR001''), (''checkInDate'', ''tomorrow''),
                              (''checkOutDate'', ''2025-04-05''), (''adults'', ''2''),
                              (''roomQuantity'', ''1''), (''currency'', ''USD''),
                              (''paymentPolicy'', ''NONE'')]) ''tok1'' None]\<rparr>"
  have a: "hotelSearchImplementation ?q world_offers_down =
      (Inl (ApiError 500 ''Internal Server Error'' ''{}''), ?w0)"
    by (rule search_fails_world_offers_down)
  have q: "cityCode ?q = ''PAR''" "checkInDate ?q = ''tomorrow''"
    by (simp_all add: example_query_def)
  have l: "fst (hotelList (byCity (cityCode ?q)) ?w0) = Inr (Some [five_star])"
    by (simp add: q hotelList_def makeAmadeusRequest_def getAccessToken_def fetch_hotels_def
          send_def ok_def world_offers_down_def world_with_def ok_reply_def byCity_def
          hotelListQuery_def)
  obtain w1 where l1: "hotelList (byCity (cityCode ?q)) ?w0 = (Inr (Some [five_star]), w1)"
    using l by (cases "hotelList (byCity (cityCode ?q)) ?w0") auto
  have p: "Date_parse legacy (checkInDate ?q) = None"
    by (simp add: q Date_parse_tomorrow)
  have "fst (hotelSearch (Date_parse legacy) ?q world_offers_down) = Inl RangeError"
    by (rule hotelSearch_throws_without_date
          [where parse = "Date_parse legacy" and params = "?q", OF p a l1]) simp
  then show ?thesis
    using a by (simp add: Date_parse_tomorrow)
qed

lemma digit_char_token: "d < 10 \<Longrightarrow> token_char (digit_char d)"
proof -
  assume "d < 10"
  then have "d \<in> {0, 1, 2, 3, 4, 5, 6, 7, 8, 9}"
    by auto
  then show ?thesis
    by (auto simp: digit_char_def token_char_def)
qed

lemma digits_token: "\<forall>c \<in> set (digits n). token_char c"
proof (induction n rule: digits.induct)
  case (1 n)
  show ?case
  proof (cases "n < 10")
    case True
    then show ?thesis
      by (subst digits.simps) (simp add: digit_char_token)
  next
    case False
    then have "\<forall>c \<in> set (digits (n div 10)). token_char c"
      by (rule "1.IH")
    then show ?thesis
      using False by (subst digits.simps) (simp add: digit_char_token)
  qed
qed

lemma lower_OFF: "toLowerCase ''OFF-'' = ''off-''"
  by code_simp

lemma hotelIdMatch_generated:
  assumes "token \<noteq> []" and "\<forall>c \<in> set token. token_char c"
  shows "hotelIdMatch (''OFF-'' @ token @ ''-'' @ digits n) = Some (token @ ''-'' @ digits n)"
proof -
  have "\<forall>c \<in> set (token @ ''-'' @ digits n). token_char c"
    using assms(2) digits_token [of n] by (auto simp: token_char_def)
  then have t: "takeWhile token_char (token @ ''-'' @ digits n) = token @ ''-'' @ digits n"
    by (simp only: takeWhile_eq_all_conv)
  have "hotelIdMatch (CHR ''O'' # ''FF-'' @ token @ ''-'' @ digits n) =
      (if toLowerCase (take 4 (CHR ''O'' # ''FF-'' @ token @ ''-'' @ digits n)) = ''off-'' \<and>
          takeWhile token_char (drop 4 (CHR ''O'' # ''FF-'' @ token @ ''-'' @ digits n)) \<noteq> []
       then Some (takeWhile token_char (drop 4 (CHR ''O'' # ''FF-'' @ token @ ''-'' @ digits n)))
       else hotelIdMatch (''FF-'' @ token @ ''-'' @ digits n))"
    by (rule hotelIdMatch.simps(2))
  moreover have "take 4 (CHR ''O'' # ''FF-'' @ token @ ''-'' @ digits n) = ''OFF-''"
    by simp
  moreover have "drop 4 (CHR ''O'' # ''FF-'' @ token @ ''-'' @ digits n) = token @ ''-'' @ digits n"
    by simp
  ultimately have "hotelIdMatch (CHR ''O'' # ''FF-'' @ token @ ''-'' @ digits n) =
      Some (token @ ''-'' @ digits n)"
    using assms(1) by (simp only: lower_OFF t) simp
  then show ?thesis
    by simp
qed

lemma details_of_generated_offer_id:
  assumes "token \<noteq> []" and "\<forall>c \<in> set token. token_char c"
  shows "hotelId (details_hotel (getMockHotelOfferDetails (''OFF-'' @ token @ ''-'' @ digits n)))
     = Some (token @ ''-'' @ digits n)"
proof -
  have "hotelIdMatch (''OFF-'' @ token @ ''-'' @ digits n) = Some (token @ ''-'' @ digits n)"
    using assms by (rule hotelIdMatch_generated)
  then show ?thesis
    unfolding getMockHotelOfferDetails_def by (simp only: Let_def) simp
qed

text \<open>
  C8. The hotel \<^verbatim>\<open>HLPAR001\<close> gets the fallback offer \<^verbatim>\<open>OFF-HLPAR001-1712000000270\<close>.
  Asked for the details of this offer, with the upstream service out of reach,
  \<^verbatim>\<open>hotelOffer\<close> names the hotel \<^verbatim>\<open>HLPAR001-1712000000270\<close>: the group of the pattern
  takes the hyphen and the digits of the clock as well.
\<close>

theorem details_of_fallback_offer_name_another_hotel:
  "hotelId five_star = Some ''HLPAR001''
   \<and> hotelSearch (Date_parse legacy) example_query world_offers_down =
       (Inr (Mock [five_star_offer]), world_offers_down_listed)
   \<and> map offer_id (offers five_star_offer) = [''OFF-HLPAR001-1712000000270'']
   \<and> fst (hotelOffer ''OFF-HLPAR001-1712000000270'' world_offers_down_listed) =
       Inr (Mock (getMockHotelOfferDetails ''OFF-HLPAR001-1712000000270''))
   \<and> hotelId (details_hotel (getMockHotelOfferDetails ''OFF-HLPAR001-1712000000270'')) =
       Some ''HLPAR001-1712000000270''"
proof -
  have run: "hotelSearch (Date_parse legacy) example_query world_offers_down =
       (Inr (Mock [five_star_offer]), world_offers_down_listed)"
    by (rule hotelSearch_example)
  have o: "fst (hotelOffer ''OFF-HLPAR001-1712000000270'' world_offers_down_listed) =
       Inr (Mock (getMockHotelOfferDetails ''OFF-HLPAR001-1712000000270''))"
    by (simp add: hotelOffer_def makeAmadeusRequest_def getAccessToken_def fetch_detail_def
          send_def world_offers_down_listed_def world_offers_down_failed_def
          world_offers_down_def world_with_def)
  have m: "hotelIdMatch ''OFF-HLPAR001-1712000000270'' = Some ''HLPAR001-1712000000270''"
    by code_simp
  have d: "hotelId (details_hotel (getMockHotelOfferDetails ''OFF-HLPAR001-1712000000270'')) =
       Some ''HLPAR001-1712000000270''"
    by (simp add: getMockHotelOfferDetails_def m Let_def del: hotelIdMatch.simps)
  show ?thesis
    using run o d by (simp add: five_star_def mk_hotel_def five_star_offer_def)
qed

lemma mock_confirmation_has_identifiers:
  "has_identifiers (Mock (getMockBookingConfirmation i gs w))"
  by (simp add: has_identifiers_def confirmation_ids_def getMockBookingConfirmation_def)

text \<open>
  C7, as the code has it. \<^verbatim>\<open>hotelBooking\<close> never throws. When the submission fails, with
  whatever error of the gateway, it returns the confirmation built by
  \<^verbatim>\<open>getMockBookingConfirmation\<close>: the identifiers are \<^verbatim>\<open>BK\<close> and \<^verbatim>\<open>PC\<close> followed by
  the clock, so neither is empty, and the guests are those of the request. When the
  submission succeeds, it returns the body of the upstream answer as it is.
\<close>

theorem booking_never_throws:
  "(\<exists>a w'. hotelBooking params w = (Inr a, w'))
   \<and> (submitBooking params w = (Inl e, w1) \<longrightarrow>
        hotelBooking params w =
          (Inr (Mock (getMockBookingConfirmation (offerId params) (guests params) w1)), w1)
        \<and> has_identifiers (Mock (getMockBookingConfirmation (offerId params) (guests params) w1))
        \<and> confirmation_ids (Mock (getMockBookingConfirmation (offerId params) (guests params) w1))
            = (Some (''BK'' @ toString_int (clock w1)), Some (''PC'' @ toString_int (clock w1)))
        \<and> confirmation_guests (getMockBookingConfirmation (offerId params) (guests params) w1)
            = guests params)
   \<and> (submitBooking params w = (Inr j, w1) \<longrightarrow> hotelBooking params w = (Inr (Real j), w1))"
proof -
  have "\<exists>a w'. hotelBooking params w = (Inr a, w')"
    by (cases "submitBooking params w") (auto simp: hotelBooking_def split: sum.splits)
  then show ?thesis
    using mock_confirmation_has_identifiers [of "offerId params" "guests params" w1]
    by (simp add: hotelBooking_def confirmation_ids_def getMockBookingConfirmation_def)
qed

theorem booking_never_throws_witness:
  "submitBooking example_booking (world_booking [error_reply 90 503 ''Service Unavailable''])
     = (Inl (ApiError 503 ''Service Unavailable'' ''{}''),
        (world_booking [])\<lparr>clock := 1712000000210,
          requests := [ApiRequest ''v1/booking/hotel-bookings'' ''POST'' None ''tok1''
                         (Some (bookingBodyOf example_booking))]\<rparr>)
   \<and> fst (hotelBooking example_booking (world_booking [error_reply 90 503 ''Service Unavailable'']))
       = Inr (Mock \<lparr>booking_id = ''BK1712000000210'',
                    providerConfirmationId = ''PC1712000000210'',
                    associatedRecords = [(''REF1712000000210'', ''MOCK'')],
                    confirmation_guests = guests example_booking,
                    confirmation_offerId = ''XYZ123''\<rparr>)
   \<and> submitBooking example_booking (world_booking [ok_reply 90 (JObj [])])
       = (Inr (JObj []),
          (world_booking [])\<lparr>clock := 1712000000210,
            requests := [ApiRequest ''v1/booking/hotel-bookings'' ''POST'' None ''tok1''
                           (Some (bookingBodyOf example_booking))]\<rparr>)
   \<and> fst (hotelBooking example_booking (world_booking [ok_reply 90 (JObj [])]))
       = Inr (Real (JObj []))"
proof -
  let ?w1 = "(world_booking [])\<lparr>clock := 1712000000210,
          requests := [ApiRequest ''v1/booking/hotel-bookings'' ''POST'' None ''tok1''
                         (Some (bookingBodyOf example_booking))]\<rparr>"
  have a: "submitBooking example_booking (world_booking [error_reply 90 503 ''Service Unavailable''])
     = (Inl (ApiError 503 ''Service Unavailable'' ''{}''), ?w1)"
    by (simp add: submitBooking_def makeAmadeusRequest_def getAccessToken_def fetch_booking_def
          send_def ok_def world_booking_def world_with_def error_reply_def)
  have b: "submitBooking example_booking (world_booking [ok_reply 90 (JObj [])])
       = (Inr (JObj []), ?w1)"
    by (simp add: submitBooking_def makeAmadeusRequest_def getAccessToken_def fetch_booking_def
          send_def ok_def world_booking_def world_with_def ok_reply_def)
  have c: "toString_int 1712000000210 = ''1712000000210''"
    by (simp add: toString_int_def digits.simps digit_char_def)
  have m: "getMockBookingConfirmation (offerId example_booking) (guests example_booking) ?w1
       = \<lparr>booking_id = ''BK1712000000210'',
          providerConfirmationId = ''PC1712000000210'',
          associatedRecords = [(''REF1712000000210'', ''MOCK'')],
          confirmation_guests = guests example_booking,
          confirmation_offerId = ''XYZ123''\<rparr>"
    by (simp add: getMockBookingConfirmation_def c world_booking_def world_with_def
          example_booking_def)
  show ?thesis
    using a b
      booking_never_throws [of example_booking
        "world_booking [error_reply 90 503 ''Service Unavailable'']"
        "ApiError 503 ''Service Unavailable'' ''{}''" ?w1]
      booking_never_throws [of example_booking "world_booking [ok_reply 90 (JObj [])]" _ ?w1
        "JObj []"]
    by (simp add: m)
qed

text \<open>
  C7, as stated. A request with one guest and one card is accepted upstream with the body
  \<^verbatim>\<open>{}\<close>: \<^verbatim>\<open>hotelBooking\<close> returns this body, which has no identifiers.
\<close>

theorem accepted_booking_without_identifiers:
  "guests example_booking \<noteq> []
   \<and> payments example_booking \<noteq> []
   \<and> fst (hotelBooking example_booking (world_booking [ok_reply 90 (JObj [])]))
       = Inr (Real (JObj []))
   \<and> \<not> has_identifiers (Real (JObj []))"
  by (simp add: hotelBooking_def submitBooking_def makeAmadeusRequest_def getAccessToken_def
        fetch_booking_def send_def ok_def world_booking_def world_with_def ok_reply_def
        example_booking_def has_identifiers_def confirmation_ids_def string_member_def)

end
